theory Spec2Isabelle
  imports Complex_Main
begin

section \<open>Data model (pulpoFunctions/pulpoClasses.py)\<close>

text \<open>
  The pydantic classes of the repository, restricted to the fields the planners read.
  Every field is taken as present (not \<open>None\<close>). Quantities are the integer fields of
  \<open>Item\<close> and \<open>Stock\<close>; the code converts them with \<open>float(...)\<close>, which keeps their
  value, so stock levels and quantities are integers here.
\<close>

record product =
  ident :: int
  name :: string
  sku :: string
  product_categories :: "int list"

record item =
  product_id :: int
  quantity :: int
  product :: product

record fulfillment_order =
  sales_order_id :: int
  state :: string
  priority :: int
  channel :: string
  shipping_method_id :: int
  criterium :: string
  zip :: string
  country_code :: string
  delivery_date :: "(int \<times> nat) option"
  items :: "item list"

text \<open>The body of \<open>POST picking/orders\<close>, as \<open>create_picking\<close> builds it.\<close>

record picking_order =
  sales_orders :: "int list"
  orders_count :: int
  pickers :: "int list"
  cart :: bool
  pnotes :: string

text \<open>\<open>ProductAvailability\<close>: the dictionary product id \<open>\<rightarrow>\<close> available quantity.\<close>

type_synonym product_stock = "int \<rightharpoonup> int"

section \<open>Python strings and numbers\<close>

text \<open>
  \<open>str.split(sep)\<close> for a one-character separator (it always returns at least one
  piece), \<open>str.startswith\<close>, the substring test \<open>needle in hay\<close>, \<open>str(int)\<close> and
  \<open>float(str)\<close>.
\<close>

fun split_on :: "char \<Rightarrow> string \<Rightarrow> string list" where
  "split_on c [] = [[]]"
| "split_on c (x # xs) =
     (if x = c then [] # split_on c xs
      else (x # hd (split_on c xs)) # tl (split_on c xs))"

definition startswith :: "string \<Rightarrow> string \<Rightarrow> bool" where
  "startswith s p = (take (length p) s = p)"

fun contains_str :: "string \<Rightarrow> string \<Rightarrow> bool" where
  "contains_str needle [] = (needle = [])"
| "contains_str needle (c # cs) =
     (take (length needle) (c # cs) = needle \<or> contains_str needle cs)"

definition is_digit :: "char \<Rightarrow> bool" where
  "is_digit c = (48 \<le> (of_char c :: nat) \<and> (of_char c :: nat) \<le> 57)"

definition digit_val :: "char \<Rightarrow> nat" where
  "digit_val c = of_char c - 48"

definition digit_char :: "nat \<Rightarrow> char" where
  "digit_char d = char_of (48 + d)"

fun str_nat :: "nat \<Rightarrow> string" where
  "str_nat n = (if n < 10 then [digit_char n] else str_nat (n div 10) @ [digit_char (n mod 10)])"

declare str_nat.simps [simp del]

definition str_int :: "int \<Rightarrow> string" where
  "str_int i = (if i < 0 then CHR ''-'' # str_nat (nat (- i)) else str_nat (nat i))"

definition nat_of_digits :: "string \<Rightarrow> nat" where
  "nat_of_digits s = foldl (\<lambda>a c. 10 * a + digit_val c) 0 s"

definition is_space :: "char \<Rightarrow> bool" where
  "is_space c = (c \<in> set [CHR '' '', CHR 0x09, CHR 0x0A, CHR 0x0B, CHR 0x0C, CHR 0x0D])"

definition strip :: "string \<Rightarrow> string" where
  "strip s = rev (dropWhile is_space (rev (dropWhile is_space s)))"

definition split_sign :: "string \<Rightarrow> int \<times> string" where
  "split_sign s = (case s of [] \<Rightarrow> (1, [])
     | c # r \<Rightarrow> if c = CHR ''-'' then (- 1, r) else if c = CHR ''+'' then (1, r) else (1, s))"

definition parse_exponent :: "string \<Rightarrow> int option" where
  "parse_exponent s = (case s of [] \<Rightarrow> Some 0
     | c # r \<Rightarrow> if c = CHR ''e'' \<or> c = CHR ''E'' then
          (let (sg, ds) = split_sign r in
           if ds \<noteq> [] \<and> list_all is_digit ds then Some (sg * int (nat_of_digits ds)) else None)
        else None)"

definition pow10 :: "int \<Rightarrow> rat" where
  "pow10 e = (if 0 \<le> e then 10 ^ nat e else 1 / 10 ^ nat (- e))"

text \<open>
  \<open>float(s)\<close> on ASCII input: surrounding whitespace, a sign, decimal digits with an
  optional fraction, an optional exponent. \<open>None\<close> is Python's \<open>ValueError\<close>. The result is
  the exact decimal value; Python rounds it to the nearest double, which the label shares
  of this program (\<open>0.25\<close>, \<open>0.5\<close>, \<open>1\<close>, ...) are not affected by. The words \<open>inf\<close> and
  \<open>nan\<close> are left out: \<open>extract_size\<close> only converts strings that contain a dot between
  two pieces, where Python refuses them too.
\<close>

definition py_float :: "string \<Rightarrow> rat option" where
  "py_float s =
     (let (sg, body) = split_sign (strip s);
          ip = takeWhile is_digit body;
          r1 = dropWhile is_digit body;
          (fp, r2) = (case r1 of [] \<Rightarrow> ([], [])
                      | c # r \<Rightarrow> if c = CHR ''.'' then (takeWhile is_digit r, dropWhile is_digit r)
                                 else ([], r1))
      in if ip = [] \<and> fp = [] then None
         else (case parse_exponent r2 of
                 None \<Rightarrow> None
               | Some e \<Rightarrow> Some (of_int sg * (of_nat (nat_of_digits ip)
                                  + of_nat (nat_of_digits fp) / 10 ^ length fp) * pow10 e)))"

text \<open>
  A number as the note prints it: an \<open>int\<close>, or a \<open>float\<close> holding an integral value
  (the stock levels), which \<open>str\<close> prints with a trailing \<open>.0\<close>.
\<close>

datatype pynum = PyInt int | PyFloat int

fun num_val :: "pynum \<Rightarrow> int" where
  "num_val (PyInt i) = i"
| "num_val (PyFloat i) = i"

fun str_num :: "pynum \<Rightarrow> string" where
  "str_num (PyInt i) = str_int i"
| "str_num (PyFloat i) = str_int i @ ''.0''"

section \<open>config.py\<close>

definition ALTRUAN_LIEFERDIENST :: int where "ALTRUAN_LIEFERDIENST = 807"
definition ABHOLUNG :: int where "ABHOLUNG = 665"
definition PALETTENVERSAND :: int where "PALETTENVERSAND = 604"
definition DB_SCHENKER :: int where "DB_SCHENKER = 605"
definition DB_SCHENKER_EUROPALETTE :: int where "DB_SCHENKER_EUROPALETTE = 1097"
definition SPECIAL_SHIPPING_METHODS :: "int list" where
  "SPECIAL_SHIPPING_METHODS =
     [ALTRUAN_LIEFERDIENST, ABHOLUNG, PALETTENVERSAND, DB_SCHENKER, DB_SCHENKER_EUROPALETTE]"

definition TAG_IDENTIFIER_LABEL_SHARE :: string where "TAG_IDENTIFIER_LABEL_SHARE = ''LA_''"
definition QUEUE_STATE :: string where "QUEUE_STATE = ''queue''"
definition RUNNING_DRY_NUM_ORDERS :: nat where "RUNNING_DRY_NUM_ORDERS = 100"
definition RUNNING_DRY_DENOMINATOR :: rat where "RUNNING_DRY_DENOMINATOR = 1 / 10"

definition BASE_NOTE :: string where "BASE_NOTE = ''Bot:''"
definition NOTE_BATCH :: string where "NOTE_BATCH = ''Batch''"
definition NOTE_PLZ_FAR_RANGE :: string where "NOTE_PLZ_FAR_RANGE = ''PLZ 1-4''"
definition NOTE_YESTERDAY :: string where "NOTE_YESTERDAY = ''Vortag''"
definition NOTE_SWEEPER :: string where "NOTE_SWEEPER = ''Rest''"
definition NOTE_SENI :: string where "NOTE_SENI = ''Seni''"
definition NOTE_S :: string where "NOTE_S = ''S (bis 0.25)''"
definition NOTE_M1 :: string where "NOTE_M1 = ''M1 (bis 0.5)''"
definition NOTE_M2 :: string where "NOTE_M2 = ''M2 (bis 1)''"
definition NOTE_L :: string where "NOTE_L = ''L (bis 3)''"
definition NOTE_XL :: string where "NOTE_XL = ''XL (ab 3)''"
definition NOTE_PRIO :: string where "NOTE_PRIO = ''PRIO''"
definition NOTE_ALTRUAN_LIEFERDIENST :: string where
  "NOTE_ALTRUAN_LIEFERDIENST = ''Altruan Lieferdienst''"
definition NOTE_ABHOLUNG :: string where "NOTE_ABHOLUNG = ''Abholung''"
definition NOTE_DB_SCHENKER :: string where "NOTE_DB_SCHENKER = ''Palette''"
definition NOTE_PALETTE :: string where "NOTE_PALETTE = ''Palette''"
definition NOTE_PARTNERKUNDE :: string where
  "NOTE_PARTNERKUNDE = ''Partnerkunde (Bitte Lieferschein ausdrucken)''"

definition NORMAL_PRIORITY_VALUE :: int where "NORMAL_PRIORITY_VALUE = 1"
definition GERMANY_COUNTRY_CODE :: string where "GERMANY_COUNTRY_CODE = ''276''"
definition PLZ_FAR_RANGE :: "char list" where "PLZ_FAR_RANGE = ''1234''"
definition YESTERDAY_ORDERS_START_TIME :: nat where "YESTERDAY_ORDERS_START_TIME = 0"
definition YESTERDAY_ORDERS_END_TIME :: nat where "YESTERDAY_ORDERS_END_TIME = 24"
definition WORKING_DAYS :: "nat list" where "WORKING_DAYS = [0, 1, 2, 3, 4]"
definition CORRECTION_HOURS :: nat where "CORRECTION_HOURS = 2"
definition LABEL_SHARE_DIVIDERS :: "(rat \<times> string) list" where
  "LABEL_SHARE_DIVIDERS =
     [(1 / 4, NOTE_S), (1 / 2, NOTE_M1), (1, NOTE_M2), (3, NOTE_L), (9, NOTE_XL)]"
definition PALETTE_LABEL_SHARE :: rat where "PALETTE_LABEL_SHARE = 9"
definition TZMO_MANUFACTURER :: int where "TZMO_MANUFACTURER = 6468"
definition SENI_PRODUCTS_IDENTIFIER :: string where "SENI_PRODUCTS_IDENTIFIER = ''Seni''"

definition MIN_BATCH_SIZE :: int where "MIN_BATCH_SIZE = 5"
definition MAX_BATCH_SIZE :: int where "MAX_BATCH_SIZE = 100"
definition MIN_BATCH_SIZE_SENI :: int where "MIN_BATCH_SIZE_SENI = 3"
definition NON_PRIO_THRESHOLD :: int where "NON_PRIO_THRESHOLD = 10"
definition SWEEPING_MIN_ORDERS :: int where "SWEEPING_MIN_ORDERS = 1"
definition PARTNERKUNDE_SALES_CHANNELS :: "string list" where
  "PARTNERKUNDE_SALES_CHANNELS = [''Partnerkunde (netto)'']"

text \<open>\<open>PackageSizes\<close>: the members in the order of the enumeration, each a \<open>(min, max, note)\<close>.\<close>

datatype PackageSizes = SIZE_S | SIZE_M1 | SIZE_M2 | SIZE_L | SIZE_XL | SIZE_XXL

fun size_min :: "PackageSizes \<Rightarrow> int" where
  "size_min s = 1"

fun size_max :: "PackageSizes \<Rightarrow> int" where
  "size_max SIZE_XL = 1"
| "size_max SIZE_XXL = 1"
| "size_max s = 10"

fun size_note_of :: "PackageSizes \<Rightarrow> string" where
  "size_note_of SIZE_S = NOTE_S"
| "size_note_of SIZE_M1 = NOTE_M1"
| "size_note_of SIZE_M2 = NOTE_M2"
| "size_note_of SIZE_L = NOTE_L"
| "size_note_of SIZE_XL = NOTE_XL"
| "size_note_of SIZE_XXL = NOTE_PALETTE"

text \<open>The clock of a run: \<open>current_time.hour\<close>, \<open>.weekday()\<close> and \<open>.date()\<close> (a day number).\<close>

record clock =
  hour :: nat
  weekday :: nat
  today :: int

section \<open>shared\_functions.py: classification\<close>

text \<open>
  \<open>extract_size\<close>: the loop over the comma-separated tags keeps the value of the last tag
  with the prefix \<open>LA_\<close> that decodes; an \<open>IndexError\<close> (fewer than three pieces) and a
  \<open>ValueError\<close> of \<open>float\<close> are caught inside the loop and leave the value as it is.
\<close>

fun extract_size_loop :: "rat \<Rightarrow> string list \<Rightarrow> rat" where
  "extract_size_loop float_value [] = float_value"
| "extract_size_loop float_value (tag # tags) =
     (if startswith tag TAG_IDENTIFIER_LABEL_SHARE then
        (let splitted_string = split_on CHR ''_'' tag in
         if length splitted_string < 3 then extract_size_loop float_value tags
         else (case py_float (splitted_string ! 1 @ ''.'' @ splitted_string ! 2) of
                 None \<Rightarrow> extract_size_loop float_value tags
               | Some v \<Rightarrow> extract_size_loop v tags))
      else extract_size_loop float_value tags)"

definition extract_size :: "fulfillment_order \<Rightarrow> rat" where
  "extract_size order = extract_size_loop 0 (split_on CHR '','' (criterium order))"

fun first_divider :: "rat \<Rightarrow> (rat \<times> string) list \<Rightarrow> string" where
  "first_divider label_share [] = NOTE_PALETTE"
| "first_divider label_share ((label, size_label) # rest) =
     (if label_share \<le> label then size_label else first_divider label_share rest)"

definition define_size_note :: "rat \<Rightarrow> string" where
  "define_size_note label_share =
     (if label_share = 0 then NOTE_PALETTE
      else first_divider label_share (sort_key fst LABEL_SHARE_DIVIDERS))"

definition item_is_seni :: "item \<Rightarrow> bool" where
  "item_is_seni it =
     (TZMO_MANUFACTURER \<in> set (product_categories (product it))
      \<or> contains_str SENI_PRODUCTS_IDENTIFIER (name (product it)))"

definition check_for_seni :: "fulfillment_order \<Rightarrow> bool" where
  "check_for_seni order = list_ex item_is_seni (items order)"

definition check_order_suitability :: "fulfillment_order \<Rightarrow> bool" where
  "check_order_suitability order = (state order = QUEUE_STATE)"


text \<open>An order with every field at a neutral value, to build concrete inputs from.\<close>

definition blank_order :: fulfillment_order where
  "blank_order = \<lparr>sales_order_id = 0, state = ''queue'', priority = 1, channel = [],
     shipping_method_id = 0, criterium = [], zip = ''10115'', country_code = ''276'',
     delivery_date = None, items = []\<rparr>"

text \<open>Exceptions the planners can raise on well-formed records.\<close>

datatype py_error = IndexError | KeyError | ExternalError

text \<open>
  \<open>is_past_delivery_date\<close>: the delivery date comes parsed as (day number, hour of the
  day); the code adds \<open>CORRECTION_HOURS\<close> and compares the dates.
\<close>

definition is_past_delivery_date :: "clock \<Rightarrow> fulfillment_order \<Rightarrow> bool" where
  "is_past_delivery_date now order =
     (case delivery_date order of
        None \<Rightarrow> False
      | Some (d, h) \<Rightarrow> d + int ((h + CORRECTION_HOURS) div 24) < today now)"

definition plz_in_far_range :: "string \<Rightarrow> py_error + bool" where
  "plz_in_far_range plz = (case plz of [] \<Rightarrow> Inl IndexError | c # rest \<Rightarrow> Inr (c \<in> set PLZ_FAR_RANGE))"

text \<open>
  \<open>is_order_prio\<close>: the three time bands, tried in order. \<open>plz[0]\<close> raises on an empty
  ZIP code, and only where the conjuncts before it hold.
\<close>

definition is_order_prio :: "clock \<Rightarrow> fulfillment_order \<Rightarrow> py_error + bool" where
  "is_order_prio now order =
     (let band2 = (((YESTERDAY_ORDERS_START_TIME \<le> hour now \<and> hour now \<le> YESTERDAY_ORDERS_END_TIME)
                    \<or> weekday now \<notin> set WORKING_DAYS) \<and> is_past_delivery_date now order);
          band3 = (if YESTERDAY_ORDERS_END_TIME < hour now \<and> weekday now \<in> set WORKING_DAYS
                      \<and> country_code order = GERMANY_COUNTRY_CODE
                   then plz_in_far_range (zip order) else Inr False);
          later = (if band2 then Inr True else band3)
      in if hour now < YESTERDAY_ORDERS_START_TIME \<and> weekday now \<in> set WORKING_DAYS
            \<and> country_code order = GERMANY_COUNTRY_CODE
         then (case plz_in_far_range (zip order) of
                 Inl e \<Rightarrow> Inl e
               | Inr far \<Rightarrow> if far \<and> is_past_delivery_date now order then Inr True else later)
         else later)"

text \<open>
  \<open>skus_to_batch\<close>: the JSON file \<open>pulpoManager/skus_to_batch.json\<close> is not part of the
  sources; it is a parameter, a dictionary SKU \<open>\<rightarrow>\<close> \<open>(id, separate_batch_from)\<close> in file order.
\<close>

type_synonym skus_to_batch = "(string \<times> int \<times> int) list"

definition suitable_for_cart_creation ::
  "skus_to_batch \<Rightarrow> fulfillment_order \<Rightarrow> bool \<Rightarrow> bool" where
  "suitable_for_cart_creation skus order is_sweeping_time =
     (if is_sweeping_time then True
      else if list_ex (\<lambda>it. sku (product it) \<in> set (map fst skus)) (items order) then False
      else if PALETTE_LABEL_SHARE \<le> extract_size order then False
      else if shipping_method_id order \<in> set SPECIAL_SHIPPING_METHODS then False
      else True)"

section \<open>note\_creator.py\<close>

record note_creator =
  nc_current_time :: clock
  nc_orders :: "fulfillment_order list"
  nc_is_prio :: bool
  nc_is_batch :: bool
  nc_sweeping_time :: bool

definition add_special_shipping_method :: "fulfillment_order \<Rightarrow> string option" where
  "add_special_shipping_method order =
     (if shipping_method_id order = ABHOLUNG then Some NOTE_ABHOLUNG
      else if shipping_method_id order = DB_SCHENKER then Some NOTE_DB_SCHENKER
      else if shipping_method_id order = ALTRUAN_LIEFERDIENST then Some NOTE_ALTRUAN_LIEFERDIENST
      else if shipping_method_id order = DB_SCHENKER_EUROPALETTE then Some NOTE_PALETTE
      else None)"

definition get_size_note :: "fulfillment_order \<Rightarrow> string" where
  "get_size_note order = define_size_note (extract_size order)"

definition create_base_of_priority_note :: "note_creator \<Rightarrow> string" where
  "create_base_of_priority_note nc =
     (if (YESTERDAY_ORDERS_START_TIME \<le> hour (nc_current_time nc)
          \<and> hour (nc_current_time nc) \<le> YESTERDAY_ORDERS_END_TIME)
         \<or> weekday (nc_current_time nc) \<notin> set WORKING_DAYS
      then NOTE_YESTERDAY else NOTE_PLZ_FAR_RANGE)"

definition contains_seni_products :: "note_creator \<Rightarrow> int list \<Rightarrow> bool" where
  "contains_seni_products nc cart_ids =
     list_ex (\<lambda>order_id. list_ex (\<lambda>order. order_id = sales_order_id order \<and> check_for_seni order)
                                   (nc_orders nc)) cart_ids"

text \<open>Python truth values of the optional arguments: \<open>None\<close>, \<open>""\<close> and \<open>0\<close> are false.\<close>

definition truthy_str :: "string option \<Rightarrow> bool" where
  "truthy_str s = (case s of None \<Rightarrow> False | Some t \<Rightarrow> t \<noteq> [])"

text \<open>
  \<open>create_note\<close>, block by block as the comments of the source divide it: the note
  starts as \<open>BASE_NOTE\<close> and each block appends a blank and its text when its condition
  holds. Each block is a function from the note so far to the note after it.
\<close>

definition default_size_note :: "fulfillment_order option \<Rightarrow> string option \<Rightarrow> string option" where
  "default_size_note single_order size_note =
     (case single_order of
        None \<Rightarrow> size_note
      | Some order \<Rightarrow> if truthy_str size_note then size_note else Some (get_size_note order))"

definition block_seni :: "note_creator \<Rightarrow> int list \<Rightarrow> string \<Rightarrow> string" where
  "block_seni nc list_of_ids note =
     (if contains_seni_products nc list_of_ids then note @ '' '' @ NOTE_SENI else note)"

definition block_prio :: "note_creator \<Rightarrow> fulfillment_order option \<Rightarrow> string \<Rightarrow> string" where
  "block_prio nc single_order note =
     (case single_order of
        None \<Rightarrow> if nc_is_prio nc then note @ '' '' @ create_base_of_priority_note nc else note
      | Some order \<Rightarrow>
          if NORMAL_PRIORITY_VALUE < priority order
          then note @ '' '' @ NOTE_PRIO @ '' '' @ str_int (priority order)
          else if nc_is_prio nc then note @ '' '' @ create_base_of_priority_note nc
          else note)"

definition block_batch :: "note_creator \<Rightarrow> string \<Rightarrow> string" where
  "block_batch nc note = (if nc_is_batch nc then note @ '' '' @ NOTE_BATCH else note)"

definition block_shipping :: "fulfillment_order option \<Rightarrow> string \<Rightarrow> string" where
  "block_shipping single_order note =
     (case single_order of
        None \<Rightarrow> note
      | Some order \<Rightarrow> (case add_special_shipping_method order of
                         None \<Rightarrow> note
                       | Some label \<Rightarrow> if label = [] then note else note @ '' '' @ label))"

definition block_partnerkunde :: "fulfillment_order option \<Rightarrow> string \<Rightarrow> string" where
  "block_partnerkunde single_order note =
     (case single_order of
        None \<Rightarrow> note
      | Some order \<Rightarrow> if channel order \<in> set PARTNERKUNDE_SALES_CHANNELS
                      then note @ '' '' @ NOTE_PARTNERKUNDE else note)"

definition block_rest :: "note_creator \<Rightarrow> string \<Rightarrow> string" where
  "block_rest nc note =
     (if nc_sweeping_time nc \<and> nc_is_prio nc then note @ '' '' @ NOTE_SWEEPER else note)"

definition block_size :: "string option \<Rightarrow> string \<Rightarrow> string" where
  "block_size size_note note =
     (case size_note of
        None \<Rightarrow> note
      | Some label \<Rightarrow> if label = [] then note else note @ '' '' @ label)"

definition block_batched :: "pynum option \<Rightarrow> string option \<Rightarrow> string \<Rightarrow> string" where
  "block_batched batched_quantity batched_product note =
     (case batched_quantity of
        None \<Rightarrow> note
      | Some q \<Rightarrow> (case batched_product of
                     None \<Rightarrow> note
                   | Some p \<Rightarrow> if num_val q = 0 \<or> p = [] then note
                               else note @ '' '' @ str_num q @ '' '' @ p))"

definition block_shelf :: "string option \<Rightarrow> string \<Rightarrow> string" where
  "block_shelf shelf note =
     (case shelf of
        None \<Rightarrow> note
      | Some sh \<Rightarrow> if sh = [] then note else note @ '' '' @ sh)"

definition block_count :: "note_creator \<Rightarrow> int list \<Rightarrow> string \<Rightarrow> string" where
  "block_count nc list_of_ids note =
     (if nc_sweeping_time nc \<and> nc_is_prio nc
      then note @ '' '' @ str_nat (length list_of_ids) else note)"

definition create_note ::
  "note_creator \<Rightarrow> int list \<Rightarrow> fulfillment_order option \<Rightarrow> string option \<Rightarrow> pynum option
     \<Rightarrow> string option \<Rightarrow> string option \<Rightarrow> string" where
  "create_note nc list_of_ids single_order size_note batched_quantity batched_product shelf =
     (let note = BASE_NOTE;
          size_note' = default_size_note single_order size_note;
          note = block_seni nc list_of_ids note;
          note = block_prio nc single_order note;
          note = block_batch nc note;
          note = block_shipping single_order note;
          note = block_partnerkunde single_order note;
          note = block_rest nc note;
          note = block_size size_note' note;
          note = block_batched batched_quantity batched_product note;
          note = block_shelf shelf note;
          note = block_count nc list_of_ids note
      in note)"

subsection \<open>The note grammar, as section 4.8 of the specification words it\<close>

text \<open>
  Each field of the grammar is a token that applies or not; the note is the literal
  \<open>Bot:\<close> followed by the applicable tokens in the fixed order, joined by single blanks.
\<close>

fun join_blank :: "string list \<Rightarrow> string" where
  "join_blank [] = []"
| "join_blank [t] = t"
| "join_blank (t # u # ts) = t @ '' '' @ join_blank (u # ts)"

definition seni_token :: "note_creator \<Rightarrow> int list \<Rightarrow> string option" where
  "seni_token nc ids = (if contains_seni_products nc ids then Some NOTE_SENI else None)"

definition planner_priority_token :: "note_creator \<Rightarrow> string option" where
  "planner_priority_token nc =
     (if nc_is_prio nc then Some (create_base_of_priority_note nc) else None)"

definition priority_token :: "note_creator \<Rightarrow> fulfillment_order option \<Rightarrow> string option" where
  "priority_token nc single_order =
     (case single_order of
        None \<Rightarrow> planner_priority_token nc
      | Some order \<Rightarrow> if 1 < priority order then Some (''PRIO '' @ str_int (priority order))
                      else planner_priority_token nc)"

definition batch_token :: "note_creator \<Rightarrow> string option" where
  "batch_token nc = (if nc_is_batch nc then Some ''Batch'' else None)"

definition shipping_token :: "fulfillment_order option \<Rightarrow> string option" where
  "shipping_token single_order =
     (case single_order of None \<Rightarrow> None | Some order \<Rightarrow> add_special_shipping_method order)"

definition partnerkunde_token :: "fulfillment_order option \<Rightarrow> string option" where
  "partnerkunde_token single_order =
     (case single_order of
        None \<Rightarrow> None
      | Some order \<Rightarrow> if channel order \<in> set PARTNERKUNDE_SALES_CHANNELS
                      then Some ''Partnerkunde (Bitte Lieferschein ausdrucken)'' else None)"

definition rest_token :: "note_creator \<Rightarrow> string option" where
  "rest_token nc = (if nc_is_prio nc \<and> nc_sweeping_time nc then Some ''Rest'' else None)"

definition size_token :: "fulfillment_order option \<Rightarrow> string option \<Rightarrow> string option" where
  "size_token single_order size_note =
     (if truthy_str size_note then size_note
      else (case single_order of None \<Rightarrow> None | Some order \<Rightarrow> Some (get_size_note order)))"

definition batched_token :: "pynum option \<Rightarrow> string option \<Rightarrow> string option" where
  "batched_token batched_quantity batched_product =
     (case (batched_quantity, batched_product) of
        (Some q, Some p) \<Rightarrow> if num_val q = 0 \<or> p = [] then None else Some (str_num q @ '' '' @ p)
      | other \<Rightarrow> None)"

definition shelf_token :: "string option \<Rightarrow> string option" where
  "shelf_token shelf = (if truthy_str shelf then shelf else None)"

definition count_token :: "note_creator \<Rightarrow> int list \<Rightarrow> string option" where
  "count_token nc ids =
     (if nc_is_prio nc \<and> nc_sweeping_time nc then Some (str_nat (length ids)) else None)"

definition note_tokens ::
  "note_creator \<Rightarrow> int list \<Rightarrow> fulfillment_order option \<Rightarrow> string option \<Rightarrow> pynum option
     \<Rightarrow> string option \<Rightarrow> string option \<Rightarrow> string option list" where
  "note_tokens nc ids single_order size_note batched_quantity batched_product shelf =
     [seni_token nc ids, priority_token nc single_order, batch_token nc,
      shipping_token single_order, partnerkunde_token single_order, rest_token nc,
      size_token single_order size_note, batched_token batched_quantity batched_product,
      shelf_token shelf, count_token nc ids]"

text \<open>A token that applies but is the empty string is skipped like one that does not apply.\<close>

definition applicable :: "string option list \<Rightarrow> string list" where
  "applicable toks = filter (\<lambda>t. t \<noteq> []) (List.map_filter (\<lambda>t. t) toks)"

section \<open>shared\_functions.py: create\_picking\<close>

text \<open>
  \<open>create_picking\<close> sends one request body to the WMS and swallows every error of the
  call, so its only effect is the body that was sent. The WMS is the log of the bodies
  posted so far (oldest first).
\<close>

definition create_picking ::
  "picking_order list \<Rightarrow> int list \<Rightarrow> string \<Rightarrow> int \<Rightarrow> bool \<Rightarrow> int list \<Rightarrow> picking_order list" where
  "create_picking wms list_of_ids note count is_cart pickers_arg =
     (let cart' = (if length list_of_ids = 1 then False else is_cart)
      in wms @ [\<lparr>sales_orders = list_of_ids, orders_count = count, pickers = pickers_arg,
                 cart = cart', pnotes = note\<rparr>])"

section \<open>separation.py: check\_availability\_locally\<close>

text \<open>
  The loop returns at the first item: \<open>False\<close> when its product is not in the stock
  dictionary, \<open>True\<close> when the stock covers it, and only otherwise goes on to the next
  item. The stock dictionary is read, never written.
\<close>

fun check_availability_locally :: "product_stock \<Rightarrow> item list \<Rightarrow> bool" where
  "check_availability_locally stock [] = False"
| "check_availability_locally stock (it # rest) =
     (case stock (product_id it) of
        None \<Rightarrow> False
      | Some s \<Rightarrow> if quantity it \<le> s then True else check_availability_locally stock rest)"

section \<open>shared\_functions.py: picker distribution\<close>

text \<open>
  A Python dictionary with its insertion order: assigning to a key that is present keeps
  its position, a new key goes to the end.
\<close>

fun dict_set :: "('k \<times> 'v) list \<Rightarrow> 'k \<Rightarrow> 'v \<Rightarrow> ('k \<times> 'v) list" where
  "dict_set [] k v = [(k, v)]"
| "dict_set ((k', v') # d) k v = (if k' = k then (k, v) # d else (k', v') # dict_set d k v)"

text \<open>\<open>d[k] += 1\<close> raises \<open>KeyError\<close> when the key is missing.\<close>

definition dict_incr :: "(int \<times> int) list \<Rightarrow> int \<Rightarrow> py_error + (int \<times> int) list" where
  "dict_incr d k = (case map_of d k of None \<Rightarrow> Inl KeyError | Some v \<Rightarrow> Inr (dict_set d k (v + 1)))"

text \<open>
  \<open>create_picks_per_user_distribution\<close>: \<open>num_picks\<close> is the answer of the WMS to
  \<open>find_num_picks_for_user\<close> (the number of queued picks the user owns).
\<close>

definition create_picks_per_user_distribution :: "(int \<Rightarrow> int) \<Rightarrow> int list \<Rightarrow> (int \<times> int) list" where
  "create_picks_per_user_distribution num_picks pickers_list =
     foldl (\<lambda>picks_distribution user_id. dict_set picks_distribution user_id (num_picks user_id))
       [] pickers_list"

text \<open>
  \<open>choose_picker\<close>: \<open>sorted\<close> is stable, so among the pickers with the fewest picks the
  first of the dictionary is taken. \<open>next(iter(...))\<close> of an empty dictionary cannot
  happen in the second branch.
\<close>

definition choose_picker :: "(int \<times> int) list \<Rightarrow> int list" where
  "choose_picker picks_distribution =
     (if length picks_distribution \<le> 1 then map fst picks_distribution
      else [fst (hd (sort_key snd picks_distribution))])"

section \<open>separation.py\<close>

record pickers_roster =
  Partnerkunden :: "int list"
  Palettenversand :: "int list"

record separator =
  sep_current_time :: clock
  sep_is_sweeping_time :: bool
  sep_product_stock :: product_stock
  sep_skus_to_batch :: skus_to_batch
  sep_orders_count :: nat
  prio_orders_for_batches :: "fulfillment_order list"
  prio_orders_without_seni :: "fulfillment_order list"
  seni_prio_orders :: "fulfillment_order list"
  orders_for_batches :: "fulfillment_order list"
  orders_without_seni :: "fulfillment_order list"
  seni_orders :: "fulfillment_order list"
  partnerkunde_pickers :: "int list"
  partnerkunde_pickers_distribution :: "(int \<times> int) list"
  palette_pickers :: "int list"
  palette_pickers_distribution :: "(int \<times> int) list"
  sep_wms :: "picking_order list"

text \<open>\<open>PulpoSeparator.__init__\<close> with \<open>get_picks_distribution\<close>; \<open>wms\<close> is the log so far.\<close>

definition init_separator ::
  "clock \<Rightarrow> bool \<Rightarrow> pickers_roster \<Rightarrow> product_stock \<Rightarrow> skus_to_batch \<Rightarrow> (int \<Rightarrow> int)
     \<Rightarrow> picking_order list \<Rightarrow> separator" where
  "init_separator now is_sweeping_time roster stock skus num_picks wms =
     \<lparr>sep_current_time = now, sep_is_sweeping_time = is_sweeping_time,
      sep_product_stock = stock, sep_skus_to_batch = skus, sep_orders_count = 0,
      prio_orders_for_batches = [], prio_orders_without_seni = [], seni_prio_orders = [],
      orders_for_batches = [], orders_without_seni = [], seni_orders = [],
      partnerkunde_pickers = Partnerkunden roster,
      partnerkunde_pickers_distribution =
        create_picks_per_user_distribution num_picks (Partnerkunden roster),
      palette_pickers = Palettenversand roster,
      palette_pickers_distribution =
        create_picks_per_user_distribution num_picks (Palettenversand roster),
      sep_wms = wms\<rparr>"

text \<open>\<open>xs[0]\<close> raises \<open>IndexError\<close> on an empty list.\<close>

definition first_of :: "int list \<Rightarrow> py_error + int" where
  "first_of xs = (case xs of [] \<Rightarrow> Inl IndexError | x # rest \<Rightarrow> Inr x)"

text \<open>
  \<open>create_assigned_picking\<close>. In the branch for at most one picker the source passes
  \<open>self.partnerkunde_pickers\<close> to \<open>create_picking\<close> and returns
  \<open>self.partnerkunde_pickers[0]\<close>, whatever roster the caller supplied as \<open>pickers\<close>.
  The pick is posted before the return value is computed, so it stays posted when the
  indexing raises.
\<close>

definition create_assigned_picking ::
  "separator \<Rightarrow> fulfillment_order \<Rightarrow> int list \<Rightarrow> (int \<times> int) list \<Rightarrow> string option \<Rightarrow> bool
     \<Rightarrow> separator \<times> (py_error + int)" where
  "create_assigned_picking sep order pickers_arg pickers_distribution size_note is_prio =
     (let nc = \<lparr>nc_current_time = sep_current_time sep, nc_orders = [order],
                 nc_is_prio = is_prio, nc_is_batch = False, nc_sweeping_time = False\<rparr>;
          note = create_note nc [sales_order_id order] (Some order) size_note None None None
      in if length pickers_arg \<le> 1 then
           (sep\<lparr>sep_wms := create_picking (sep_wms sep) [sales_order_id order] note 1 False
                                (partnerkunde_pickers sep)\<rparr>,
            first_of (partnerkunde_pickers sep))
         else
           (let picker = choose_picker pickers_distribution
            in (sep\<lparr>sep_wms := create_picking (sep_wms sep) [sales_order_id order] note 1 False
                                    picker\<rparr>,
                first_of picker)))"

text \<open>
  \<open>single_picks_creation\<close>: the result is \<open>True\<close> when a single pick was created and the
  order is done. \<open>if picker_id:\<close> is false for the id \<open>0\<close>; then the function falls
  through to \<open>return False\<close>.
\<close>

definition single_picks_creation ::
  "separator \<Rightarrow> fulfillment_order \<Rightarrow> bool \<Rightarrow> separator \<times> (py_error + bool)" where
  "single_picks_creation sep order is_prio =
     (let label_share = extract_size order in
      if channel order \<in> set PARTNERKUNDE_SALES_CHANNELS then
        (case create_assigned_picking sep order (partnerkunde_pickers sep)
                (partnerkunde_pickers_distribution sep) None is_prio of
           (sep', Inl e) \<Rightarrow> (sep', Inl e)
         | (sep', Inr picker_id) \<Rightarrow>
             if picker_id \<noteq> 0 then
               (case dict_incr (partnerkunde_pickers_distribution sep') picker_id of
                  Inl e \<Rightarrow> (sep', Inl e)
                | Inr d \<Rightarrow> (sep'\<lparr>partnerkunde_pickers_distribution := d\<rparr>, Inr True))
             else (sep', Inr False))
      else if NORMAL_PRIORITY_VALUE < priority order then
        (let nc = \<lparr>nc_current_time = sep_current_time sep, nc_orders = [order],
                   nc_is_prio = False, nc_is_batch = False, nc_sweeping_time = False\<rparr>;
             note = create_note nc [sales_order_id order] (Some order) None None None None
         in (sep\<lparr>sep_wms := create_picking (sep_wms sep) [sales_order_id order] note 1 False []\<rparr>,
             Inr True))
      else if PALETTE_LABEL_SHARE \<le> label_share
              \<or> shipping_method_id order \<in> set SPECIAL_SHIPPING_METHODS then
        (case create_assigned_picking sep order (palette_pickers sep)
                (palette_pickers_distribution sep) (Some NOTE_PALETTE) is_prio of
           (sep', Inl e) \<Rightarrow> (sep', Inl e)
         | (sep', Inr picker_id) \<Rightarrow>
             if picker_id \<noteq> 0 then
               (case dict_incr (palette_pickers_distribution sep') picker_id of
                  Inl e \<Rightarrow> (sep', Inl e)
                | Inr d \<Rightarrow> (sep'\<lparr>palette_pickers_distribution := d\<rparr>, Inr True))
             else (sep', Inr False))
      else (sep, Inr False))"

text \<open>The routing of an order that got no single pick into the six lists.\<close>

definition route_order :: "separator \<Rightarrow> fulfillment_order \<Rightarrow> bool \<Rightarrow> bool \<Rightarrow> bool \<Rightarrow> separator" where
  "route_order sep order prio contains_seni suitable_for_carts =
     (if prio then
        (let sep1 = sep\<lparr>prio_orders_for_batches := prio_orders_for_batches sep @ [order]\<rparr>
         in if suitable_for_carts then
              (if contains_seni then sep1\<lparr>seni_prio_orders := seni_prio_orders sep1 @ [order]\<rparr>
               else sep1\<lparr>prio_orders_without_seni := prio_orders_without_seni sep1 @ [order]\<rparr>)
            else sep1)
      else
        (let sep1 = sep\<lparr>orders_for_batches := orders_for_batches sep @ [order]\<rparr>
         in if suitable_for_carts then
              (if contains_seni then sep1\<lparr>seni_orders := seni_orders sep1 @ [order]\<rparr>
               else sep1\<lparr>orders_without_seni := orders_without_seni sep1 @ [order]\<rparr>)
            else sep1))"

text \<open>
  One turn of the loop of \<open>PulpoSeparator.main\<close>. An exception anywhere in the turn is
  caught and the loop goes on with the next order; what the turn did before it stays.
\<close>

definition separate_order :: "separator \<Rightarrow> fulfillment_order \<Rightarrow> separator" where
  "separate_order sep order =
     (if check_order_suitability order
         \<and> check_availability_locally (sep_product_stock sep) (items order) then
        (let sep1 = sep\<lparr>sep_orders_count := sep_orders_count sep + 1\<rparr> in
         case is_order_prio (sep_current_time sep1) order of
           Inl e \<Rightarrow> sep1
         | Inr prio \<Rightarrow>
             (let contains_seni = check_for_seni order;
                  suitable_for_carts =
                    suitable_for_cart_creation (sep_skus_to_batch sep1) order (sep_is_sweeping_time sep1)
              in case single_picks_creation sep1 order prio of
                   (sep2, Inl e) \<Rightarrow> sep2
                 | (sep2, Inr single_pick_created) \<Rightarrow>
                     if single_pick_created then sep2
                     else route_order sep2 order prio contains_seni suitable_for_carts))
      else sep)"

definition separator_main :: "separator \<Rightarrow> fulfillment_order list \<Rightarrow> separator" where
  "separator_main sep queue_orders = foldl separate_order sep queue_orders"

text \<open>The condition the docstring of \<open>check_availability_locally\<close> states: all items are covered.\<close>

definition all_items_available :: "product_stock \<Rightarrow> item list \<Rightarrow> bool" where
  "all_items_available stock its =
     list_all (\<lambda>it. case stock (product_id it) of None \<Rightarrow> False | Some s \<Rightarrow> quantity it \<le> s) its"

section \<open>Concrete inputs\<close>

text \<open>Small records for the theorems that run the model on an explicit input.\<close>

definition mk_item :: "int \<Rightarrow> int \<Rightarrow> item" where
  "mk_item p q = \<lparr>product_id = p, quantity = q,
     product = \<lparr>ident = p, name = ''Handschuhe'', sku = ''SKU'', product_categories = []\<rparr>\<rparr>"

definition mk_order :: "int \<Rightarrow> string \<Rightarrow> item list \<Rightarrow> fulfillment_order" where
  "mk_order i crit its = blank_order\<lparr>sales_order_id := i, criterium := crit, items := its\<rparr>"

text \<open>Wednesday, six o'clock, as the clock pinned in \<open>PulpoManager.__init__\<close>.\<close>

definition clock0 :: clock where
  "clock0 = \<lparr>hour = 6, weekday = 2, today = 100\<rparr>"

section \<open>pulpoFunctions: the WMS client\<close>

text \<open>
  A JSON value, and what one attempt of \<open>session.request\<close> brings back: no response at
  all (the request itself raised), or a status code with a body that is JSON or not.
\<close>

datatype json =
    JNull | JBool bool | JNum int | JStr string | JList "json list"
  | JDict "(string \<times> json) list"

datatype http_response = NoResponse | Http nat "json option"

text \<open>The exceptions \<open>askPulpo\<close> lets through to its caller, and its two ways to end.\<close>

datatype ask_error = PulpoError json | HTTPError nat | OtherError

datatype ask_result = Returned "json option" | Raised ask_error

text \<open>
  \<open>key in value\<close>: a key of a dictionary, a substring of a string, an element of a list;
  on any other value Python raises \<open>TypeError\<close> (\<open>None\<close> here).
\<close>

fun py_in :: "string \<Rightarrow> json \<Rightarrow> bool option" where
  "py_in key (JDict kvs) = Some (key \<in> set (map fst kvs))"
| "py_in key (JStr s) = Some (contains_str key s)"
| "py_in key (JList vs) = Some (JStr key \<in> set vs)"
| "py_in key other = None"

fun truthy_json :: "json \<Rightarrow> bool" where
  "truthy_json JNull = False"
| "truthy_json (JBool b) = b"
| "truthy_json (JNum n) = (n \<noteq> 0)"
| "truthy_json (JStr s) = (s \<noteq> [])"
| "truthy_json (JList vs) = (vs \<noteq> [])"
| "truthy_json (JDict kvs) = (kvs \<noteq> [])"

text \<open>
  \<open>PulpoError.is_api_rate_limit_error\<close> on the JSON body: the answer and the \<open>delay\<close> it
  stores (\<open>retry_after_seconds\<close>). \<open>.get\<close> exists on dictionaries only: on a string or a
  list that contains \<open>message\<close> the call raises \<open>AttributeError\<close> (\<open>None\<close> here).
\<close>

fun is_api_rate_limit_error :: "json \<Rightarrow> (bool \<times> json option) option" where
  "is_api_rate_limit_error (JDict kvs) =
     (if map_of kvs ''message'' = Some (JStr ''api_rate_limit_reached'')
      then Some (True, map_of kvs ''retry_after_seconds'')
      else Some (False, None))"
| "is_api_rate_limit_error (JStr s) =
     (if contains_str ''message'' s then None else Some (False, None))"
| "is_api_rate_limit_error (JList vs) =
     (if JStr ''message'' \<in> set vs then None else Some (False, None))"
| "is_api_rate_limit_error other = None"

text \<open>
  What the \<open>try\<close> block of one attempt does with the response: it returns a value, or
  raises a \<open>PulpoError\<close> (with the answer of its rate-limit test), an \<open>HTTPError\<close> (from
  \<open>raise_for_status\<close>, for a status from 400 on), or something else.
\<close>

datatype attempt =
    Value "json option"
  | Business json bool "json option"
  | HttpFailure nat
  | Unexpected

fun first_other_key :: "(string \<times> json) list \<Rightarrow> json option" where
  "first_other_key [] = None"
| "first_other_key ((k, v) # kvs) = (if k \<noteq> ''total_results'' then Some v else first_other_key kvs)"

definition is_error_body :: "json \<Rightarrow> bool option" where
  "is_error_body j =
     (case py_in ''errors'' j of
        None \<Rightarrow> None
      | Some True \<Rightarrow> Some True
      | Some False \<Rightarrow> (case py_in ''message'' j of
                         None \<Rightarrow> None
                       | Some True \<Rightarrow> Some True
                       | Some False \<Rightarrow> Some (case j of JStr s \<Rightarrow> True | other \<Rightarrow> False)))"

definition error_or_value :: "json \<Rightarrow> attempt" where
  "error_or_value j =
     (case is_error_body j of
        None \<Rightarrow> Unexpected
      | Some True \<Rightarrow> (case is_api_rate_limit_error j of
                        None \<Rightarrow> Unexpected
                      | Some (limited, d) \<Rightarrow> Business j limited d)
      | Some False \<Rightarrow> Value (Some j))"

definition shape_response :: "json \<Rightarrow> attempt" where
  "shape_response j =
     (case j of
        JDict kvs \<Rightarrow>
          (if ''total_results'' \<in> set (map fst kvs) \<and> first_other_key kvs \<noteq> None
           then Value (first_other_key kvs)
           else if ''created'' \<in> set (map fst kvs) then Value (Some j)
           else error_or_value j)
      | other \<Rightarrow> error_or_value j)"

definition one_attempt :: "http_response \<Rightarrow> attempt" where
  "one_attempt r =
     (case r of
        NoResponse \<Rightarrow> Unexpected
      | Http status body \<Rightarrow>
          if 400 \<le> status \<and> status < 600 then HttpFailure status
          else (case body of None \<Rightarrow> Unexpected | Some j \<Rightarrow> shape_response j))"

text \<open>
  \<open>time.sleep(delay)\<close> with the \<open>delay\<close> taken from the error: a number that is not
  negative sleeps; anything else raises inside the handler.
\<close>

fun sleep_seconds :: "json \<Rightarrow> int option" where
  "sleep_seconds (JNum n) = (if 0 \<le> n then Some n else None)"
| "sleep_seconds (JBool b) = Some (if b then 1 else 0)"
| "sleep_seconds other = None"

text \<open>
  The trace of a call: the sleeps of the retry policy, in order, and the number of
  requests sent. The sleeps of the client-side rate limiter (\<open>_throttle_api_calls\<close>)
  depend on the wall clock only and are left out.
\<close>

record ask_trace =
  slept :: "json list"
  requests :: nat

text \<open>
  \<open>askPulpo\<close>: the loop \<open>for attempt in range(retries)\<close>, counted down by the attempts
  that remain; \<open>responses i\<close> is what the WMS answers to attempt \<open>i\<close>. \<open>delay\<close> is the
  local variable: once an error has supplied \<open>retry_after_seconds\<close> it keeps that value.
  When the loop runs out the function ends without a \<open>return\<close>, so Python returns \<open>None\<close>.
\<close>

fun askPulpo_loop ::
  "(nat \<Rightarrow> http_response) \<Rightarrow> nat \<Rightarrow> nat \<Rightarrow> json \<Rightarrow> ask_trace \<Rightarrow> ask_result \<times> ask_trace" where
  "askPulpo_loop responses retries 0 delay tr = (Returned None, tr)"
| "askPulpo_loop responses retries (Suc remaining) delay tr =
     (let attempt = retries - Suc remaining;
          tr1 = tr\<lparr>requests := requests tr + 1\<rparr>
      in case one_attempt (responses attempt) of
           Value v \<Rightarrow> (Returned v, tr1)
         | Business e limited d \<Rightarrow>
             if limited \<and> attempt + 1 < retries then
               (let delay' = (case d of None \<Rightarrow> delay
                              | Some v \<Rightarrow> if truthy_json v then v else delay)
                in case sleep_seconds delay' of
                     None \<Rightarrow> (Raised OtherError, tr1)
                   | Some s \<Rightarrow> askPulpo_loop responses retries remaining delay'
                                (tr1\<lparr>slept := slept tr1 @ [delay']\<rparr>))
             else (Raised (PulpoError e), tr1)
         | HttpFailure status \<Rightarrow>
             if status = 429 then
               (case sleep_seconds delay of
                  None \<Rightarrow> (Raised OtherError, tr1)
                | Some s \<Rightarrow> askPulpo_loop responses retries remaining delay
                             (tr1\<lparr>slept := slept tr1 @ [delay]\<rparr>))
             else (Raised (HTTPError status), tr1)
         | Unexpected \<Rightarrow> (Raised OtherError, tr1))"

definition askPulpo :: "(nat \<Rightarrow> http_response) \<Rightarrow> nat \<Rightarrow> int \<Rightarrow> ask_result \<times> ask_trace" where
  "askPulpo responses retries delay =
     askPulpo_loop responses retries retries (JNum delay) \<lparr>slept = [], requests = 0\<rparr>"

section \<open>carts/common.py\<close>

text \<open>
  The space left in the warehouse: a number, or \<open>PRIO_THRESHOLD = float("inf")\<close>, from
  which subtracting one changes nothing.
\<close>

datatype space = Finite int | Unbounded

fun space_positive :: "space \<Rightarrow> bool" where
  "space_positive Unbounded = True"
| "space_positive (Finite n) = (0 < n)"

fun space_minus_one :: "space \<Rightarrow> space" where
  "space_minus_one Unbounded = Unbounded"
| "space_minus_one (Finite n) = Finite (n - 1)"

text \<open>
  The state of a cart creator (\<open>PulpoCartCommon\<close> and its two subclasses). The list of
  processed orders and the stock dictionary are the objects of the carts manager, passed
  by reference; \<open>cc_wms\<close> is the log of the picks posted. \<open>cc_check_stock\<close> is the answer
  of the WMS to \<open>check_stock\<close> for a product the stock dictionary does not hold.
\<close>

record cart_creator =
  cc_orders :: "fulfillment_order list"
  cc_processed_orders :: "int list"
  cc_product_stock :: product_stock
  cc_is_prio :: bool
  cc_is_sweeping_time :: bool
  cc_is_running_dry :: bool
  cc_current_time :: clock
  cc_shelves_index :: "(string \<times> int list) list"
  cc_check_stock :: "int \<Rightarrow> int"
  cc_wms :: "picking_order list"

definition cc_note_creator :: "cart_creator \<Rightarrow> note_creator" where
  "cc_note_creator cc =
     \<lparr>nc_current_time = cc_current_time cc, nc_orders = cc_orders cc, nc_is_prio = cc_is_prio cc,
      nc_is_batch = False, nc_sweeping_time = cc_is_sweeping_time cc\<rparr>"

text \<open>
  \<open>create_cart\<close>: \<open>new_cart\<close> is the Python set as the list of its ids in the order they
  were added (the order in which \<open>list(set)\<close> yields them is not specified).
\<close>

definition cart_minimum :: "cart_creator \<Rightarrow> PackageSizes \<Rightarrow> rat" where
  "cart_minimum cc sz =
     (let m0 = of_int (size_min sz);
          m1 = (if cc_is_running_dry cc then m0 * RUNNING_DRY_DENOMINATOR else m0)
      in if cc_is_prio cc \<and> cc_is_sweeping_time cc then of_int SWEEPING_MIN_ORDERS else m1)"

definition create_cart :: "cart_creator \<Rightarrow> int list \<Rightarrow> PackageSizes \<Rightarrow> string \<Rightarrow> cart_creator \<times> bool" where
  "create_cart cc new_cart sz shelf =
     (if cart_minimum cc sz \<le> of_nat (length new_cart) \<and> int (length new_cart) \<le> size_max sz then
        (let note = create_note (cc_note_creator cc) new_cart None (Some (size_note_of sz))
                      None None (Some shelf)
         in (cc\<lparr>cc_wms := create_picking (cc_wms cc) new_cart note 1 True []\<rparr>, True))
      else (cc, False))"

text \<open>
  \<open>is_order_fully_available\<close>: an item whose product the dictionary does not hold makes
  the function ask the WMS and store the answer; the function stops at the first item
  that the stock does not cover. \<open>all_products\<close> is the dictionary of the quantities the
  cart holds already.
\<close>

fun is_order_fully_available_loop ::
  "(int \<Rightarrow> int) \<Rightarrow> product_stock \<Rightarrow> (int \<rightharpoonup> int) \<Rightarrow> item list \<Rightarrow> product_stock \<times> bool" where
  "is_order_fully_available_loop ask stock all_products [] = (stock, True)"
| "is_order_fully_available_loop ask stock all_products (it # rest) =
     (let p = ident (product it);
          stock' = (case stock p of None \<Rightarrow> stock(p \<mapsto> ask p) | Some s \<Rightarrow> stock);
          product_stock = (case stock p of None \<Rightarrow> ask p | Some s \<Rightarrow> s);
          quantity_in_cart = quantity it + (case all_products p of None \<Rightarrow> 0 | Some q \<Rightarrow> q)
      in if product_stock < quantity_in_cart then (stock', False)
         else is_order_fully_available_loop ask stock' all_products rest)"

definition is_order_fully_available ::
  "cart_creator \<Rightarrow> (int \<rightharpoonup> int) \<Rightarrow> fulfillment_order \<Rightarrow> cart_creator \<times> bool" where
  "is_order_fully_available cc all_products order_to_check =
     (case is_order_fully_available_loop (cc_check_stock cc) (cc_product_stock cc) all_products
             (items order_to_check) of
        (stock', ok) \<Rightarrow> (cc\<lparr>cc_product_stock := stock'\<rparr>, ok))"

definition update_products_dictionary :: "(int \<rightharpoonup> int) \<Rightarrow> fulfillment_order \<Rightarrow> (int \<rightharpoonup> int)" where
  "update_products_dictionary all_products order_to_add =
     foldl (\<lambda>d it. d(ident (product it) \<mapsto>
                      (case d (ident (product it)) of None \<Rightarrow> quantity it | Some q \<Rightarrow> q + quantity it)))
       all_products (items order_to_add)"

definition subtract_item :: "product_stock \<Rightarrow> item \<Rightarrow> product_stock" where
  "subtract_item stock it =
     (case stock (ident (product it)) of
        None \<Rightarrow> stock
      | Some s \<Rightarrow> stock(ident (product it) \<mapsto> s - quantity it))"

definition update_stock_dictionary :: "cart_creator \<Rightarrow> int list \<Rightarrow> cart_creator" where
  "update_stock_dictionary cc cart_ids =
     cc\<lparr>cc_product_stock :=
          foldl (\<lambda>stock order_id.
                   foldl (\<lambda>stock' order.
                            if order_id = sales_order_id order
                            then foldl subtract_item stock' (items order) else stock')
                     stock (cc_orders cc))
            (cc_product_stock cc) cart_ids\<rparr>"

text \<open>
  The filling loop shared by both planners: the orders are scanned in input order, a full
  cart ends the scan, and an order is admitted when it is not processed, not in the cart,
  passes the planner's own test \<open>extra\<close> and is fully available. The conjunction is
  evaluated left to right, so the availability test (which may extend the stock
  dictionary) runs only after the others hold.
\<close>

fun fill_cart_loop ::
  "(fulfillment_order \<Rightarrow> bool) \<Rightarrow> int \<Rightarrow> cart_creator \<Rightarrow> int list \<Rightarrow> (int \<rightharpoonup> int)
     \<Rightarrow> fulfillment_order list \<Rightarrow> cart_creator \<times> int list \<times> (int \<rightharpoonup> int)" where
  "fill_cart_loop extra max_cart_size cc new_cart all_products_in_cart [] =
     (cc, new_cart, all_products_in_cart)"
| "fill_cart_loop extra max_cart_size cc new_cart all_products_in_cart (order # rest) =
     (if max_cart_size \<le> int (length new_cart) then (cc, new_cart, all_products_in_cart)
      else if sales_order_id order \<notin> set (cc_processed_orders cc)
              \<and> sales_order_id order \<notin> set new_cart \<and> extra order then
        (case is_order_fully_available cc all_products_in_cart order of
           (cc', ok) \<Rightarrow>
             if ok then
               fill_cart_loop extra max_cart_size cc' (new_cart @ [sales_order_id order])
                 (update_products_dictionary all_products_in_cart order) rest
             else fill_cart_loop extra max_cart_size cc' new_cart all_products_in_cart rest)
      else fill_cart_loop extra max_cart_size cc new_cart all_products_in_cart rest)"

text \<open>
  What both planners do with a filled cart: nothing when it is empty; otherwise
  \<open>create_cart\<close>, and when that posted the cart, one space less, the ids appended to the
  processed orders and the stock reduced.
\<close>

definition commit_cart ::
  "cart_creator \<Rightarrow> int list \<Rightarrow> PackageSizes \<Rightarrow> string \<Rightarrow> space \<Rightarrow> cart_creator \<times> space" where
  "commit_cart cc new_cart sz shelf space_left =
     (if new_cart = [] then (cc, space_left)
      else (case create_cart cc new_cart sz shelf of
              (cc1, cart_created) \<Rightarrow>
                if cart_created then
                  (update_stock_dictionary
                     (cc1\<lparr>cc_processed_orders := cc_processed_orders cc1 @ new_cart\<rparr>) new_cart,
                   space_minus_one space_left)
                else (cc1, space_left)))"

section \<open>carts/process\_shelves.py\<close>

definition order_has_products_on_shelf :: "int list \<Rightarrow> fulfillment_order \<Rightarrow> bool" where
  "order_has_products_on_shelf products_from_the_shelf order =
     list_ex (\<lambda>it. ident (product it) \<in> set products_from_the_shelf) (items order)"

definition fill_cart_from_shelf ::
  "cart_creator \<Rightarrow> int \<Rightarrow> int list \<Rightarrow> cart_creator \<times> int list" where
  "fill_cart_from_shelf cc max_cart_size products_from_the_shelf =
     (case fill_cart_loop (order_has_products_on_shelf products_from_the_shelf) max_cart_size
             cc [] Map.empty (cc_orders cc) of
        (cc', new_cart, all_products) \<Rightarrow> (cc', new_cart))"

text \<open>
  The shelves an order touches, in the order of the shelves index (the source collects
  them in a set, whose iteration order is not specified).
\<close>

definition find_shelves_frequency_per_order :: "cart_creator \<Rightarrow> fulfillment_order \<Rightarrow> string list" where
  "find_shelves_frequency_per_order cc order =
     map fst (filter (\<lambda>(shelf, products). list_ex (\<lambda>it. ident (product it) \<in> set products) (items order))
                (cc_shelves_index cc))"

definition count_shelf :: "(string \<times> int) list \<Rightarrow> string \<Rightarrow> (string \<times> int) list" where
  "count_shelf shelves_frequency shelf =
     (case map_of shelves_frequency shelf of
        None \<Rightarrow> dict_set shelves_frequency shelf 1
      | Some n \<Rightarrow> dict_set shelves_frequency shelf (n + 1))"

definition find_total_shelves_frequency :: "cart_creator \<Rightarrow> (string \<times> int) list" where
  "find_total_shelves_frequency cc =
     sort_key (\<lambda>(shelf, n). - n)
       (foldl (\<lambda>freq order. foldl count_shelf freq (find_shelves_frequency_per_order cc order))
          [] (cc_orders cc))"

definition select_shelves :: "cart_creator \<Rightarrow> (string \<times> int) list \<Rightarrow> int \<Rightarrow> string list" where
  "select_shelves cc shelves minimum_orders =
     (let minimum = (if cc_is_running_dry cc then of_int minimum_orders * RUNNING_DRY_DENOMINATOR
                     else of_int minimum_orders)
      in map fst (filter (\<lambda>(shelf, n). minimum \<le> of_int n) shelves))"

fun generate_carts :: "cart_creator \<Rightarrow> string list \<Rightarrow> space \<Rightarrow> PackageSizes \<Rightarrow> cart_creator \<times> space" where
  "generate_carts cc [] space_left sz = (cc, space_left)"
| "generate_carts cc (shelf # shelves) space_left sz =
     (if space_left = Finite 0 then (cc, space_left)
      else (case map_of (cc_shelves_index cc) shelf of
              None \<Rightarrow> (cc, space_left)
            | Some products_from_the_shelf \<Rightarrow>
                (case fill_cart_from_shelf cc (size_max sz) products_from_the_shelf of
                   (cc1, new_cart) \<Rightarrow>
                     (case commit_cart cc1 new_cart sz shelf space_left of
                        (cc2, space_left') \<Rightarrow> generate_carts cc2 shelves space_left' sz))))"

definition shelves_main :: "cart_creator \<Rightarrow> PackageSizes \<Rightarrow> space \<Rightarrow> cart_creator \<times> space" where
  "shelves_main cc sz space_left =
     (let shelves_frequency = find_total_shelves_frequency cc;
          selected_shelves = select_shelves cc shelves_frequency (size_min sz)
      in if selected_shelves \<noteq> [] then generate_carts cc selected_shelves space_left sz
         else (cc, space_left))"

section \<open>carts/process\_random.py\<close>

text \<open>
  \<open>fill_cart_randomly\<close>. The loop is \<open>for num in range(int(number_of_carts) + 1)\<close>, and
  the statement \<open>return space_left\<close> stands inside its body, after the cart of the turn:
  the first turn returns. The range is never empty; were it empty the function would
  return \<open>None\<close>.
\<close>

definition number_of_carts :: "cart_creator \<Rightarrow> PackageSizes \<Rightarrow> int" where
  "number_of_carts cc sz = \<lceil>(of_nat (length (cc_orders cc)) :: rat) / of_int (size_max sz)\<rceil>"

definition random_cart_turn :: "cart_creator \<Rightarrow> PackageSizes \<Rightarrow> space \<Rightarrow> cart_creator \<times> space" where
  "random_cart_turn cc sz space_left =
     (case fill_cart_loop (\<lambda>order. True) (size_max sz) cc [] Map.empty (cc_orders cc) of
        (cc1, new_cart, all_products) \<Rightarrow> commit_cart cc1 new_cart sz [] space_left)"

definition fill_cart_randomly :: "cart_creator \<Rightarrow> space \<Rightarrow> PackageSizes \<Rightarrow> cart_creator \<times> space option" where
  "fill_cart_randomly cc space_left sz =
     (case [0 ..< nat (number_of_carts cc sz + 1)] of
        [] \<Rightarrow> (cc, None)
      | num # later_turns \<Rightarrow>
          (case random_cart_turn cc sz space_left of
             (cc', space_left') \<Rightarrow> (cc', Some space_left')))"

definition random_main :: "cart_creator \<Rightarrow> PackageSizes \<Rightarrow> space \<Rightarrow> cart_creator \<times> space option" where
  "random_main cc sz space_left = fill_cart_randomly cc space_left sz"

section \<open>carts/\_\_init\_\_.py: the carts manager\<close>

text \<open>
  \<open>cm_picking_counts k\<close> is the number of picking orders in the states \<open>queue\<close> and
  \<open>taken\<close> that the WMS reports at the \<open>k\<close>-th call of \<open>check_picking\<close>; \<open>cm_checks\<close>
  counts the calls made.
\<close>

record carts_manager =
  cm_orders :: "fulfillment_order list"
  cm_processed_orders :: "int list"
  cm_is_prio :: bool
  cm_is_sweeping_time :: bool
  cm_is_running_dry :: bool
  cm_current_time :: clock
  cm_shelves_index :: "(string \<times> int list) list"
  cm_no_space_left :: bool
  cm_product_stock :: product_stock
  cm_check_stock :: "int \<Rightarrow> int"
  cm_picking_counts :: "nat \<Rightarrow> int"
  cm_checks :: nat
  cm_wms :: "picking_order list"

definition check_space :: "carts_manager \<Rightarrow> carts_manager \<times> space" where
  "check_space cm =
     (if cm_is_prio cm then (cm, Unbounded)
      else (let count_picking_orders = cm_picking_counts cm (cm_checks cm);
                cm1 = cm\<lparr>cm_checks := cm_checks cm + 1\<rparr>;
                left_space = NON_PRIO_THRESHOLD - count_picking_orders
            in if left_space < 0 then (cm1\<lparr>cm_no_space_left := True\<rparr>, Finite left_space)
               else (cm1, Finite left_space)))"

definition select_orders_by_size :: "carts_manager \<Rightarrow> string \<Rightarrow> fulfillment_order list" where
  "select_orders_by_size cm size_label =
     filter (\<lambda>order. sales_order_id order \<notin> set (cm_processed_orders cm)
                     \<and> extract_size order \<noteq> 0
                     \<and> define_size_note (extract_size order) \<noteq> []
                     \<and> define_size_note (extract_size order) = size_label)
       (cm_orders cm)"

text \<open>
  \<open>remove_processed_orders\<close> walks the list backwards and removes every order whose id is
  processed.
\<close>

definition remove_processed_orders :: "carts_manager \<Rightarrow> fulfillment_order list \<Rightarrow> fulfillment_order list" where
  "remove_processed_orders cm os =
     filter (\<lambda>order. sales_order_id order \<notin> set (cm_processed_orders cm)) os"

text \<open>
  A cart creator is built on the manager's own list of processed orders and stock
  dictionary; what it appends and subtracts is seen by the manager.
\<close>

definition creator_of :: "carts_manager \<Rightarrow> fulfillment_order list \<Rightarrow> cart_creator" where
  "creator_of cm orders_to_process =
     \<lparr>cc_orders = orders_to_process, cc_processed_orders = cm_processed_orders cm,
      cc_product_stock = cm_product_stock cm, cc_is_prio = cm_is_prio cm,
      cc_is_sweeping_time = cm_is_sweeping_time cm, cc_is_running_dry = cm_is_running_dry cm,
      cc_current_time = cm_current_time cm, cc_shelves_index = cm_shelves_index cm,
      cc_check_stock = cm_check_stock cm, cc_wms = cm_wms cm\<rparr>"

definition absorb :: "carts_manager \<Rightarrow> cart_creator \<Rightarrow> carts_manager" where
  "absorb cm cc =
     cm\<lparr>cm_processed_orders := cc_processed_orders cc, cm_product_stock := cc_product_stock cc,
        cm_wms := cc_wms cc\<rparr>"

text \<open>
  \<open>PulpoCartsManager.main\<close>. After the shelf pass the manager extends its list of
  processed orders by the creator's list, which is the same list: the list is doubled.
\<close>

definition carts_main ::
  "carts_manager \<Rightarrow> PackageSizes \<Rightarrow> fulfillment_order list \<Rightarrow> bool \<Rightarrow> bool \<Rightarrow> product_stock
     \<Rightarrow> carts_manager" where
  "carts_main cm sz order_list is_prio is_sweeping_time stock =
     (let cm0 = cm\<lparr>cm_is_prio := is_prio, cm_is_sweeping_time := is_sweeping_time,
                   cm_orders := order_list, cm_product_stock := stock\<rparr>
      in case check_space cm0 of
           (cm1, space_left) \<Rightarrow>
             (let orders_to_process = select_orders_by_size cm1 (size_note_of sz)
              in if orders_to_process \<noteq> [] \<and> (space_positive space_left \<or> cm_is_sweeping_time cm1) then
                   (case shelves_main (creator_of cm1 orders_to_process) sz space_left of
                      (cc, space_left') \<Rightarrow>
                        (let cm2 = absorb cm1 cc;
                             cm3 = cm2\<lparr>cm_processed_orders :=
                                         cm_processed_orders cm2 @ cm_processed_orders cm2\<rparr>
                         in if space_positive space_left' then
                              (case random_main (creator_of cm3 (remove_processed_orders cm3 orders_to_process))
                                      sz space_left' of
                                 (cc', r) \<Rightarrow> absorb cm3 cc')
                            else cm3))
                 else cm1))"

section \<open>\_\_init\_\_.py: picking\_creation\_carts\<close>

text \<open>
  The loop over \<open>PackageSizes\<close>, \<open>SIZE_XXL\<close> skipped; \<open>manager_sweeping\<close> is the
  \<open>is_sweeping_time\<close> of the \<open>PulpoManager\<close>. Every call passes
  \<open>self.batching_manager.product_stock\<close>, one dictionary object: the carts manager holds
  it from the first call on, and each call finds in it what the calls before it changed.
\<close>

fun carts_for_sizes ::
  "carts_manager \<Rightarrow> bool \<Rightarrow> fulfillment_order list \<Rightarrow> bool \<Rightarrow> PackageSizes list \<Rightarrow> carts_manager" where
  "carts_for_sizes cm manager_sweeping order_list is_prio [] = cm"
| "carts_for_sizes cm manager_sweeping order_list is_prio (sz # sizes) =
     (if sz = SIZE_XXL then carts_for_sizes cm manager_sweeping order_list is_prio sizes
      else if cm_no_space_left cm \<and> manager_sweeping = False then cm
      else carts_for_sizes
             (carts_main cm sz order_list is_prio manager_sweeping (cm_product_stock cm))
             manager_sweeping order_list is_prio sizes)"

definition picking_creation_carts ::
  "carts_manager \<Rightarrow> bool \<Rightarrow> fulfillment_order list \<Rightarrow> bool \<Rightarrow> product_stock \<Rightarrow> carts_manager" where
  "picking_creation_carts cm manager_sweeping order_list is_prio stock =
     carts_for_sizes (cm\<lparr>cm_product_stock := stock\<rparr>) manager_sweeping order_list is_prio
       [SIZE_S, SIZE_M1, SIZE_M2, SIZE_L, SIZE_XL, SIZE_XXL]"

text \<open>A carts manager as \<open>PulpoCartsManager.__init__\<close> leaves it, for concrete inputs.\<close>

definition init_carts_manager ::
  "(string \<times> int list) list \<Rightarrow> clock \<Rightarrow> bool \<Rightarrow> product_stock \<Rightarrow> (int \<Rightarrow> int) \<Rightarrow> (nat \<Rightarrow> int)
     \<Rightarrow> picking_order list \<Rightarrow> carts_manager" where
  "init_carts_manager shelves_index now is_running_dry stock ask counts wms =
     \<lparr>cm_orders = [], cm_processed_orders = [], cm_is_prio = False, cm_is_sweeping_time = False,
      cm_is_running_dry = is_running_dry, cm_current_time = now, cm_shelves_index = shelves_index,
      cm_no_space_left = False, cm_product_stock = stock, cm_check_stock = ask,
      cm_picking_counts = counts, cm_checks = 0, cm_wms = wms\<rparr>"

text \<open>Twelve orders of size S, each one unit of product 1, and a cart creator over them.\<close>

definition twelve_orders :: "fulfillment_order list" where
  "twelve_orders = map (\<lambda>i. mk_order i ''LA_0_2'' [mk_item 1 1]) [1, 2, 3, 4, 5, 6, 7, 8, 9, 10, 11, 12]"

definition creator0 :: "fulfillment_order list \<Rightarrow> product_stock \<Rightarrow> cart_creator" where
  "creator0 os stock =
     \<lparr>cc_orders = os, cc_processed_orders = [], cc_product_stock = stock, cc_is_prio = False,
      cc_is_sweeping_time = False, cc_is_running_dry = False, cc_current_time = clock0,
      cc_shelves_index = [], cc_check_stock = (\<lambda>p. 0), cc_wms = []\<rparr>"

section \<open>batching\_flow.py\<close>

text \<open>\<open>max_units_per_palette\<close>: a number of units, or \<open>float("inf")\<close>.\<close>

datatype pallet_limit = Units int | NoLimit

fun fits_on_pallet :: "int \<Rightarrow> pallet_limit \<Rightarrow> bool" where
  "fits_on_pallet q (Units u) = (q \<le> u)"
| "fits_on_pallet q NoLimit = True"

text \<open>\<open>total_quantity // max_units_per_palette\<close>; dividing by infinity gives \<open>0\<close> (or \<open>-1\<close>).\<close>

fun floor_div_limit :: "int \<Rightarrow> pallet_limit \<Rightarrow> int" where
  "floor_div_limit q (Units u) = q div u"
| "floor_div_limit q NoLimit = (if q < 0 then - 1 else 0)"

text \<open>Python's \<open>round\<close>: to the nearest integer, a half to the even neighbour.\<close>

definition py_round :: "rat \<Rightarrow> int" where
  "py_round x =
     (let f = \<lfloor>x\<rfloor>; d = x - of_int f
      in if d < 1 / 2 then f else if 1 / 2 < d then f + 1 else if even f then f else f + 1)"

fun num_minus :: "pynum \<Rightarrow> int \<Rightarrow> pynum" where
  "num_minus (PyInt a) q = PyInt (a - q)"
| "num_minus (PyFloat a) q = PyFloat (a - q)"

text \<open>
  The state of the \<open>PulpoBatchingManager\<close>. \<open>bm_product_info\<close> stands for
  \<open>extract_max_units_per_palette\<close>, which asks the WMS and the article service: the name
  of the product and the pallet limit it finds, or \<open>None\<close> when the lookup raises. The
  set of processed orders is the list of its elements.
\<close>

record batching_manager =
  bm_current_time :: clock
  bm_is_running_dry :: bool
  bm_skus_to_batch :: skus_to_batch
  bm_product_info :: "int \<Rightarrow> (string \<times> pallet_limit) option"
  bm_orders_to_include :: "fulfillment_order list"
  bm_is_prio :: bool
  bm_product_name :: string
  bm_processed_orders :: "int list"
  bm_seni_ids :: "int list"
  bm_product_stock :: product_stock
  bm_wms :: "picking_order list"

definition bm_note_creator :: "batching_manager \<Rightarrow> note_creator" where
  "bm_note_creator bm =
     \<lparr>nc_current_time = bm_current_time bm, nc_orders = bm_orders_to_include bm,
      nc_is_prio = bm_is_prio bm, nc_is_batch = True, nc_sweeping_time = False\<rparr>"

text \<open>
  What the three emitting places have in common: the note, \<open>create_picking\<close> for the
  ids, and the ids added to the processed orders.
\<close>

definition post_batch :: "batching_manager \<Rightarrow> int list \<Rightarrow> pynum \<Rightarrow> batching_manager" where
  "post_batch bm list_of_ids batched_quantity =
     (let note = create_note (bm_note_creator bm) list_of_ids None None (Some batched_quantity)
                   (Some (bm_product_name bm)) None
      in bm\<lparr>bm_wms := create_picking (bm_wms bm) list_of_ids note 1 False [],
            bm_processed_orders := bm_processed_orders bm @ list_of_ids\<rparr>)"

text \<open>
  \<open>self.product_stock[product_id] -= q\<close> inside a \<open>try\<close>: a product the dictionary does
  not hold raises \<open>KeyError\<close>, which is caught and logged.
\<close>

definition reduce_stock :: "batching_manager \<Rightarrow> int \<Rightarrow> int \<Rightarrow> batching_manager" where
  "reduce_stock bm p q =
     (case bm_product_stock bm p of
        None \<Rightarrow> bm
      | Some s \<Rightarrow> bm\<lparr>bm_product_stock := (bm_product_stock bm)(p \<mapsto> s - q)\<rparr>)"

text \<open>\<open>split_batches\<close>: the inner loop that collects one batch.\<close>

fun collect_batch ::
  "int list \<Rightarrow> pallet_limit \<Rightarrow> int \<Rightarrow> int list \<Rightarrow> (int \<times> int) list \<Rightarrow> int \<times> int list" where
  "collect_batch processed pallet_cap batched_quantity ids_to_batch [] = (batched_quantity, ids_to_batch)"
| "collect_batch processed pallet_cap batched_quantity ids_to_batch ((order_id, q) # rest) =
     (if order_id \<in> set processed then collect_batch processed pallet_cap batched_quantity ids_to_batch rest
      else if \<not> fits_on_pallet (batched_quantity + q) pallet_cap then (batched_quantity, ids_to_batch)
      else if MAX_BATCH_SIZE \<le> int (length ids_to_batch) then (batched_quantity, ids_to_batch)
      else collect_batch processed pallet_cap (batched_quantity + q) (ids_to_batch @ [order_id]) rest)"

fun split_batches_loop ::
  "nat \<Rightarrow> batching_manager \<Rightarrow> (int \<times> int) list \<Rightarrow> pallet_limit \<Rightarrow> batching_manager" where
  "split_batches_loop 0 bm orders pallet_cap = bm"
| "split_batches_loop (Suc n) bm orders pallet_cap =
     (case collect_batch (bm_processed_orders bm) pallet_cap 0 [] orders of
        (batched_quantity, ids_to_batch) \<Rightarrow>
          split_batches_loop n
            (if ids_to_batch \<noteq> [] then post_batch bm ids_to_batch (PyInt batched_quantity) else bm)
            orders pallet_cap)"

definition split_batches ::
  "batching_manager \<Rightarrow> (int \<times> int) list \<Rightarrow> pynum \<Rightarrow> pallet_limit \<Rightarrow> batching_manager" where
  "split_batches bm orders total_quantity pallet_cap =
     (let num_batches_by_articles = floor_div_limit (num_val total_quantity) pallet_cap;
          num_batches_by_orders = int (length orders) div MAX_BATCH_SIZE;
          num_batches = min num_batches_by_articles num_batches_by_orders
      in split_batches_loop (nat num_batches) bm orders pallet_cap)"

definition regular_batching ::
  "batching_manager \<Rightarrow> pallet_limit \<Rightarrow> pynum \<Rightarrow> (int \<times> int) list \<Rightarrow> int \<Rightarrow> batching_manager" where
  "regular_batching bm pallet_cap total_quantity orders p =
     (if fits_on_pallet (num_val total_quantity) pallet_cap \<and> int (length orders) \<le> MAX_BATCH_SIZE then
        reduce_stock (post_batch bm (map fst orders) total_quantity) p (num_val total_quantity)
      else split_batches bm orders total_quantity pallet_cap)"

text \<open>
  \<open>find_palette_separation_value\<close>: the \<open>separate_batch_from\<close> of the first entry of
  \<open>skus_to_batch\<close> with the product's id; there is one exactly when the id is in
  \<open>special_ids_to_batch\<close>.
\<close>

fun find_palette_separation_value :: "skus_to_batch \<Rightarrow> int \<Rightarrow> int option" where
  "find_palette_separation_value [] p = None"
| "find_palette_separation_value ((sku_code, sku_id, separate_from) # rest) p =
     (if sku_id = p then Some separate_from else find_palette_separation_value rest p)"

fun special_palette_batching ::
  "batching_manager \<Rightarrow> int \<Rightarrow> pynum \<Rightarrow> (int \<times> int) list \<Rightarrow> int \<Rightarrow> batching_manager \<times> pynum" where
  "special_palette_batching bm separate_from total_quantity [] p = (bm, total_quantity)"
| "special_palette_batching bm separate_from total_quantity ((order_id, q) # rest) p =
     (if num_val total_quantity \<le> 0 then (bm, total_quantity)
      else if separate_from \<le> q \<and> q \<le> num_val total_quantity
              \<and> order_id \<notin> set (bm_processed_orders bm) then
        special_palette_batching (reduce_stock (post_batch bm [order_id] (PyInt q)) p q)
          separate_from (num_minus total_quantity q) rest p
      else special_palette_batching bm separate_from total_quantity rest p)"

definition special_batching ::
  "batching_manager \<Rightarrow> int \<Rightarrow> pallet_limit \<Rightarrow> pynum \<Rightarrow> (int \<times> int) list \<Rightarrow> int \<Rightarrow> int
     \<Rightarrow> batching_manager" where
  "special_batching bm separate_from pallet_cap total_quantity orders p min_batch_size =
     (case special_palette_batching bm separate_from total_quantity orders p of
        (bm1, total_quantity') \<Rightarrow>
          (let left_orders = filter (\<lambda>(order_id, q). order_id \<notin> set (bm_processed_orders bm1)) orders
           in if left_orders \<noteq> [] \<and> min_batch_size < num_val total_quantity'
              then regular_batching bm1 pallet_cap total_quantity' left_orders p
              else bm1))"

fun fitting_orders :: "int \<Rightarrow> int \<Rightarrow> (int \<times> int) list \<Rightarrow> int list" where
  "fitting_orders total_quantity fitted_quantity [] = []"
| "fitting_orders total_quantity fitted_quantity ((order_id, q) # rest) =
     (if fitted_quantity + q < total_quantity
      then order_id # fitting_orders total_quantity (fitted_quantity + q) rest
      else fitting_orders total_quantity fitted_quantity rest)"

definition is_batch_size_sufficient :: "int \<Rightarrow> (int \<times> int) list \<Rightarrow> int \<Rightarrow> bool" where
  "is_batch_size_sufficient total_quantity orders min_batch_size =
     (min_batch_size < int (length (fitting_orders total_quantity 0 orders)))"

text \<open>
  \<open>extract_quantities\<close>: a dictionary order id \<open>\<rightarrow>\<close> quantity over the orders with one item
  of the product, then sorted by quantity, largest first (\<open>sorted\<close> is stable).
\<close>

definition extract_quantities :: "batching_manager \<Rightarrow> int \<Rightarrow> (int \<times> int) list" where
  "extract_quantities bm p =
     sort_key (\<lambda>(order_id, q). - q)
       (foldl (\<lambda>orders order.
                 if length (items order) = 1 \<and> ident (product (hd (items order))) = p
                 then dict_set orders (sales_order_id order) (quantity (hd (items order)))
                 else orders)
          [] (bm_orders_to_include bm))"

definition check_stock_locally :: "batching_manager \<Rightarrow> int \<Rightarrow> pynum" where
  "check_stock_locally bm p = (case bm_product_stock bm p of None \<Rightarrow> PyInt 0 | Some s \<Rightarrow> PyFloat s)"

definition get_batch_size :: "batching_manager \<Rightarrow> int \<Rightarrow> int" where
  "get_batch_size bm p =
     (let m0 = (if p \<in> set (bm_seni_ids bm) then MIN_BATCH_SIZE_SENI else MIN_BATCH_SIZE);
          m1 = (if bm_is_running_dry bm then of_int m0 * RUNNING_DRY_DENOMINATOR else of_int m0)
      in py_round m1)"

text \<open>
  \<open>batching_products\<close>. The lookup of the pallet limit comes first; when it raises, the
  exception leaves \<open>batching_products\<close> and ends the loop of \<open>main\<close>.
\<close>

definition batching_products :: "batching_manager \<Rightarrow> int \<Rightarrow> py_error + batching_manager" where
  "batching_products bm p =
     (case bm_product_info bm p of
        None \<Rightarrow> Inl ExternalError
      | Some (product_name, max_units_per_palette) \<Rightarrow>
          (let bm1 = bm\<lparr>bm_product_name := product_name\<rparr>;
               min_batch_size = get_batch_size bm1 p;
               orders = extract_quantities bm1 p;
               total_quantity = PyInt (sum_list (map snd orders));
               current_stock = check_stock_locally bm1 p;
               enough = (num_val total_quantity \<le> num_val current_stock);
               sufficient = is_batch_size_sufficient (num_val current_stock) orders min_batch_size;
               total_quantity' = (if enough then total_quantity else current_stock)
           in if \<not> enough \<and> \<not> sufficient then Inr bm1
              else (case find_palette_separation_value (bm_skus_to_batch bm1) p of
                      Some separate_from \<Rightarrow>
                        Inr (special_batching bm1 separate_from max_units_per_palette
                               total_quantity' orders p min_batch_size)
                    | None \<Rightarrow>
                        Inr (regular_batching bm1 max_units_per_palette total_quantity' orders p))))"

text \<open>
  \<open>find_single_sku_orders\<close> with \<open>check_if_seni\<close>: the count of orders with one item per
  product, in the order the products are met, and the ids of the Seni products (of which
  only the membership is read).
\<close>

definition count_single_sku ::
  "(int \<times> int) list \<times> int list \<Rightarrow> fulfillment_order \<Rightarrow> (int \<times> int) list \<times> int list" where
  "count_single_sku acc order =
     (case acc of (single_counts, seni) \<Rightarrow>
        if length (items order) = 1 then
          (let it = hd (items order); p = ident (product it)
           in (dict_set single_counts p (case map_of single_counts p of None \<Rightarrow> 1 | Some n \<Rightarrow> n + 1),
               if item_is_seni it then seni @ [p] else seni))
        else (single_counts, seni))"

definition find_single_sku_orders :: "batching_manager \<Rightarrow> (int \<times> int) list \<times> batching_manager" where
  "find_single_sku_orders bm =
     (case foldl count_single_sku ([], bm_seni_ids bm) (bm_orders_to_include bm) of
        (single_counts, seni) \<Rightarrow> (single_counts, bm\<lparr>bm_seni_ids := seni\<rparr>))"

definition find_products_to_batch :: "batching_manager \<Rightarrow> int list \<times> batching_manager" where
  "find_products_to_batch bm =
     (case find_single_sku_orders bm of
        (single_counts, bm1) \<Rightarrow>
          (map fst (filter (\<lambda>(p, n). get_batch_size bm1 p \<le> n) single_counts), bm1))"

fun batch_each :: "batching_manager \<Rightarrow> int list \<Rightarrow> batching_manager" where
  "batch_each bm [] = bm"
| "batch_each bm (p # ps) =
     (case batching_products bm p of
        Inl e \<Rightarrow> bm
      | Inr bm1 \<Rightarrow> batch_each bm1 ps)"

definition batching_main ::
  "batching_manager \<Rightarrow> fulfillment_order list \<Rightarrow> bool \<Rightarrow> product_stock \<Rightarrow> batching_manager" where
  "batching_main bm orders_to_include is_prio stock =
     (let bm0 = bm\<lparr>bm_orders_to_include := orders_to_include, bm_is_prio := is_prio,
                   bm_product_stock := stock\<rparr>
      in case find_products_to_batch bm0 of
           (product_ids_to_batch, bm1) \<Rightarrow> batch_each bm1 product_ids_to_batch)"

definition init_batching_manager ::
  "clock \<Rightarrow> bool \<Rightarrow> skus_to_batch \<Rightarrow> (int \<Rightarrow> (string \<times> pallet_limit) option) \<Rightarrow> picking_order list
     \<Rightarrow> batching_manager" where
  "init_batching_manager now is_running_dry skus info wms =
     \<lparr>bm_current_time = now, bm_is_running_dry = is_running_dry, bm_skus_to_batch = skus,
      bm_product_info = info, bm_orders_to_include = [], bm_is_prio = False,
      bm_product_name = [], bm_processed_orders = [], bm_seni_ids = [],
      bm_product_stock = Map.empty, bm_wms = wms\<rparr>"

section \<open>\_\_init\_\_.py: the PulpoManager\<close>

definition SWEEPING_HOURS :: "nat list" where
  "SWEEPING_HOURS = [5, 6, 7, 8, 9, 10, 11, 12, 13, 14, 15, 16, 17]"

text \<open>
  What a run reads from outside: the clock, the roster of pickers, the stock dictionary
  and the shelves index the Shelves Indexer built, \<open>skus_to_batch\<close>, and the answers of
  the WMS (the picks a user owns, the pallet limit of a product, the stock of a product,
  the number of picking orders at each check).
\<close>

record run_env =
  env_now :: clock
  env_pickers :: pickers_roster
  env_product_availability :: product_stock
  env_shelves_index :: "(string \<times> int list) list"
  env_skus_to_batch :: skus_to_batch
  env_num_picks :: "int \<Rightarrow> int"
  env_product_info :: "int \<Rightarrow> (string \<times> pallet_limit) option"
  env_check_stock :: "int \<Rightarrow> int"
  env_picking_counts :: "nat \<Rightarrow> int"

text \<open>
  The state of the \<open>PulpoManager\<close> during the picking creation. The stock dictionary is
  one object, \<open>product_availability\<close> of the shelves index creator, which the batching
  manager and the carts manager receive by reference, and both post to the same WMS:
  \<open>pm_product_availability\<close> and \<open>pm_wms\<close> hold their current state, and each call
  hands it to the manager and takes it back.
\<close>

record pulpo_manager =
  pm_is_sweeping_time :: bool
  pm_product_availability :: product_stock
  pm_wms :: "picking_order list"
  pm_batching_manager :: batching_manager
  pm_carts_manager :: carts_manager

definition picking_creation_batches ::
  "pulpo_manager \<Rightarrow> fulfillment_order list \<Rightarrow> bool \<Rightarrow> pulpo_manager" where
  "picking_creation_batches pm order_list is_prio =
     (let bm = batching_main ((pm_batching_manager pm)\<lparr>bm_wms := pm_wms pm\<rparr>) order_list is_prio
                 (pm_product_availability pm);
          cm = pm_carts_manager pm
      in pm\<lparr>pm_batching_manager := bm,
            pm_carts_manager := cm\<lparr>cm_processed_orders := cm_processed_orders cm @ bm_processed_orders bm\<rparr>,
            pm_wms := bm_wms bm,
            pm_product_availability := bm_product_stock bm\<rparr>)"

definition picking_creation_carts_pm ::
  "pulpo_manager \<Rightarrow> fulfillment_order list \<Rightarrow> bool \<Rightarrow> pulpo_manager" where
  "picking_creation_carts_pm pm order_list is_prio =
     (let cm = picking_creation_carts ((pm_carts_manager pm)\<lparr>cm_wms := pm_wms pm\<rparr>)
                 (pm_is_sweeping_time pm) order_list is_prio (pm_product_availability pm)
      in pm\<lparr>pm_carts_manager := cm,
            pm_batching_manager := (pm_batching_manager pm)\<lparr>bm_product_stock := cm_product_stock cm\<rparr>,
            pm_wms := cm_wms cm,
            pm_product_availability := cm_product_stock cm\<rparr>)"

definition picking_creation_manager ::
  "pulpo_manager \<Rightarrow> bool \<Rightarrow> fulfillment_order list \<Rightarrow> fulfillment_order list
     \<Rightarrow> fulfillment_order list \<Rightarrow> pulpo_manager" where
  "picking_creation_manager pm is_prio batch_list cart_seni_list cart_list =
     (let pm1 = picking_creation_batches pm batch_list is_prio;
          pm2 = picking_creation_carts_pm pm1 cart_seni_list is_prio
      in picking_creation_carts_pm pm2 cart_list is_prio)"

definition check_sweeping_time :: "clock \<Rightarrow> bool" where
  "check_sweeping_time now = (hour now \<in> set SWEEPING_HOURS)"

definition check_orders_count :: "nat \<Rightarrow> bool" where
  "check_orders_count n = (n < RUNNING_DRY_NUM_ORDERS)"

text \<open>
  \<open>PulpoManager.main\<close> from the separation on; \<open>queue_orders\<close> are the fulfillment
  orders in the state \<open>queue\<close> as the iterator of the Separator yields them.
\<close>

definition separate_orders_by_priority :: "run_env \<Rightarrow> fulfillment_order list \<Rightarrow> separator" where
  "separate_orders_by_priority env queue_orders =
     separator_main
       (init_separator (env_now env) (check_sweeping_time (env_now env)) (env_pickers env)
          (env_product_availability env) (env_skus_to_batch env) (env_num_picks env) [])
       queue_orders"

definition start_picking_creation :: "run_env \<Rightarrow> separator \<Rightarrow> pulpo_manager" where
  "start_picking_creation env sep =
     (let is_running_dry = check_orders_count (sep_orders_count sep)
      in \<lparr>pm_is_sweeping_time = check_sweeping_time (env_now env),
          pm_product_availability = env_product_availability env,
          pm_wms = sep_wms sep,
          pm_batching_manager =
            init_batching_manager (env_now env) is_running_dry (env_skus_to_batch env)
              (env_product_info env) (sep_wms sep),
          pm_carts_manager =
            init_carts_manager (env_shelves_index env) (env_now env) is_running_dry
              (env_product_availability env) (env_check_stock env) (env_picking_counts env)
              (sep_wms sep)\<rparr>)"

definition pulpo_main :: "run_env \<Rightarrow> fulfillment_order list \<Rightarrow> pulpo_manager" where
  "pulpo_main env queue_orders =
     (let sep = separate_orders_by_priority env queue_orders;
          pm0 = start_picking_creation env sep;
          pm1 = picking_creation_manager pm0 True (prio_orders_for_batches sep)
                  (seni_prio_orders sep) (prio_orders_without_seni sep)
      in picking_creation_manager pm1 False (orders_for_batches sep)
           (seni_orders sep) (orders_without_seni sep))"

text \<open>
  The quantities of the two invariants: the ids of all orders in the picks posted, and
  for a product the sum of the quantities of its items over those orders.
\<close>

definition emitted_ids :: "picking_order list \<Rightarrow> int list" where
  "emitted_ids wms = concat (map sales_orders wms)"

definition ordered_quantity :: "fulfillment_order list \<Rightarrow> int \<Rightarrow> int \<Rightarrow> int" where
  "ordered_quantity queue_orders p order_id =
     sum_list (map quantity
       (filter (\<lambda>it. ident (product it) = p)
          (concat (map items (filter (\<lambda>order. sales_order_id order = order_id) queue_orders)))))"

definition emitted_quantity :: "fulfillment_order list \<Rightarrow> picking_order list \<Rightarrow> int \<Rightarrow> int" where
  "emitted_quantity queue_orders wms p =
     sum_list (map (ordered_quantity queue_orders p) (emitted_ids wms))"

text \<open>
  A run environment with no pickers, no shelves, no special SKUs, fifty units per pallet
  for every product and an empty warehouse queue of picking orders.
\<close>

definition env0 :: "product_stock \<Rightarrow> run_env" where
  "env0 stock =
     \<lparr>env_now = clock0, env_pickers = \<lparr>Partnerkunden = [], Palettenversand = []\<rparr>,
      env_product_availability = stock, env_shelves_index = [], env_skus_to_batch = [],
      env_num_picks = (\<lambda>u. 0), env_product_info = (\<lambda>p. Some (''Handschuhe'', Units 50)),
      env_check_stock = (\<lambda>p. 0), env_picking_counts = (\<lambda>k. 0)\<rparr>"

text \<open>Ten orders of product 1: order 1 asks for five units, the orders 2 to 10 for one each.\<close>

definition ten_orders :: "fulfillment_order list" where
  "ten_orders = mk_order 1 ''LA_0_2'' [mk_item 1 5]
     # map (\<lambda>i. mk_order i ''LA_0_2'' [mk_item 1 1]) [2, 3, 4, 5, 6, 7, 8, 9, 10]"

text \<open>
  Order 200 with sixty units of product 1 and one of product 2, then a hundred orders of
  one unit of product 1 each.
\<close>

definition hundred_orders :: "fulfillment_order list" where
  "hundred_orders = mk_order 200 ''LA_0_2'' [mk_item 1 60, mk_item 2 1]
     # map (\<lambda>i. mk_order i ''LA_0_2'' [mk_item 1 1]) [1..100]"

section \<open>Theorems\<close>

subsection \<open>create\_picking\<close>

text \<open>
  C10. For a list of exactly one id the body posted to the WMS carries \<open>cart = False\<close>,
  whatever the caller passed; for a list of two or more ids the caller's \<open>cart\<close> argument
  is forwarded unchanged. In both cases exactly one body is appended to the log.
\<close>

theorem create_picking_single_pick_coercion:
  "create_picking wms [i] note count c ps =
     wms @ [\<lparr>sales_orders = [i], orders_count = count, pickers = ps, cart = False, pnotes = note\<rparr>]
   \<and> create_picking wms (i # j # ids) note count c ps =
     wms @ [\<lparr>sales_orders = i # j # ids, orders_count = count, pickers = ps, cart = c, pnotes = note\<rparr>]"
  by (simp add: create_picking_def)

subsection \<open>Strings of digits\<close>





lemma str_nat_nonempty: "str_nat n \<noteq> []"
  by (subst str_nat.simps) simp




















subsection \<open>extract\_size\<close>








subsection \<open>create\_note\<close>

lemma join_blank_snoc: "xs \<noteq> [] \<Longrightarrow> join_blank (xs @ [t]) = join_blank xs @ '' '' @ t"
  by (induction xs rule: join_blank.induct) auto

lemma join_blank_Cons: "\<exists>rest. join_blank (t # ts) = t @ rest"
  by (cases ts) auto

lemma applicable_snoc:
  "applicable (toks @ [t]) =
     applicable toks @ (case t of None \<Rightarrow> [] | Some s \<Rightarrow> if s = [] then [] else [s])"
  by (cases t) (auto simp: applicable_def List.map_filter_def)

lemma applicable_Nil: "applicable [] = []"
  by (simp add: applicable_def List.map_filter_def)

lemma grammar_snoc:
  "join_blank (BASE_NOTE # applicable (toks @ [t])) =
     (case t of
        None \<Rightarrow> join_blank (BASE_NOTE # applicable toks)
      | Some s \<Rightarrow> if s = [] then join_blank (BASE_NOTE # applicable toks)
                  else join_blank (BASE_NOTE # applicable toks) @ '' '' @ s)"
  unfolding applicable_snoc
  using join_blank_snoc [of "BASE_NOTE # applicable toks"]
  by (auto split: option.splits)

lemma block_seni_token:
  "block_seni nc ids (join_blank (BASE_NOTE # applicable toks)) =
     join_blank (BASE_NOTE # applicable (toks @ [seni_token nc ids]))"
  by (simp add: grammar_snoc block_seni_def seni_token_def NOTE_SENI_def)

lemma block_prio_token:
  "block_prio nc so (join_blank (BASE_NOTE # applicable toks)) =
     join_blank (BASE_NOTE # applicable (toks @ [priority_token nc so]))"
  by (simp add: grammar_snoc block_prio_def priority_token_def planner_priority_token_def
      NORMAL_PRIORITY_VALUE_def NOTE_PRIO_def create_base_of_priority_note_def
      NOTE_YESTERDAY_def NOTE_PLZ_FAR_RANGE_def split: option.splits)

lemma block_batch_token:
  "block_batch nc (join_blank (BASE_NOTE # applicable toks)) =
     join_blank (BASE_NOTE # applicable (toks @ [batch_token nc]))"
  by (simp add: grammar_snoc block_batch_def batch_token_def NOTE_BATCH_def)

lemma block_shipping_token:
  "block_shipping so (join_blank (BASE_NOTE # applicable toks)) =
     join_blank (BASE_NOTE # applicable (toks @ [shipping_token so]))"
  by (simp add: grammar_snoc block_shipping_def shipping_token_def split: option.splits)

lemma block_partnerkunde_token:
  "block_partnerkunde so (join_blank (BASE_NOTE # applicable toks)) =
     join_blank (BASE_NOTE # applicable (toks @ [partnerkunde_token so]))"
  by (simp add: grammar_snoc block_partnerkunde_def partnerkunde_token_def NOTE_PARTNERKUNDE_def
      split: option.splits)

lemma block_rest_token:
  "block_rest nc (join_blank (BASE_NOTE # applicable toks)) =
     join_blank (BASE_NOTE # applicable (toks @ [rest_token nc]))"
  by (auto simp: grammar_snoc block_rest_def rest_token_def NOTE_SWEEPER_def)

lemma block_size_token:
  "block_size (default_size_note so sn) (join_blank (BASE_NOTE # applicable toks)) =
     join_blank (BASE_NOTE # applicable (toks @ [size_token so sn]))"
  by (auto simp: grammar_snoc block_size_def default_size_note_def size_token_def truthy_str_def
      split: option.splits)

lemma block_batched_token:
  "block_batched bq bp (join_blank (BASE_NOTE # applicable toks)) =
     join_blank (BASE_NOTE # applicable (toks @ [batched_token bq bp]))"
  by (auto simp: grammar_snoc block_batched_def batched_token_def split: option.splits)

lemma block_shelf_token:
  "block_shelf sh (join_blank (BASE_NOTE # applicable toks)) =
     join_blank (BASE_NOTE # applicable (toks @ [shelf_token sh]))"
  by (auto simp: grammar_snoc block_shelf_def shelf_token_def truthy_str_def split: option.splits)

lemma block_count_token:
  "block_count nc ids (join_blank (BASE_NOTE # applicable toks)) =
     join_blank (BASE_NOTE # applicable (toks @ [count_token nc ids]))"
  by (auto simp: grammar_snoc block_count_def count_token_def str_nat_nonempty)

lemma create_note_as_tokens:
  "create_note nc ids so sn bq bp sh =
     join_blank (BASE_NOTE # applicable (note_tokens nc ids so sn bq bp sh))"
proof -
  have start: "BASE_NOTE = join_blank (BASE_NOTE # applicable [])"
    by (simp add: applicable_Nil)
  have "create_note nc ids so sn bq bp sh =
      block_count nc ids (block_shelf sh (block_batched bq bp (block_size (default_size_note so sn)
        (block_rest nc (block_partnerkunde so (block_shipping so (block_batch nc
          (block_prio nc so (block_seni nc ids (join_blank (BASE_NOTE # applicable []))))))))))) "
    unfolding create_note_def Let_def using start by simp
  also have "\<dots> = join_blank (BASE_NOTE # applicable (note_tokens nc ids so sn bq bp sh))"
    unfolding block_seni_token block_prio_token block_batch_token block_shipping_token
      block_partnerkunde_token block_rest_token block_size_token block_batched_token
      block_shelf_token block_count_token
    by (simp add: note_tokens_def)
  finally show ?thesis .
qed

text \<open>
  C6. Every note \<open>create_note\<close> returns is the literal \<open>Bot:\<close> followed by the applicable
  tokens, separated by single blanks, in the fixed order Seni, priority suffix, Batch,
  special shipping-method label, Partnerkunde label, Rest, size label, batched quantity
  and product, shelf, order count; a token that does not apply is left out and the order
  of the others stays. In particular the note begins with \<open>Bot:\<close>.
\<close>

theorem create_note_grammar:
  "create_note nc ids so sn bq bp sh =
     join_blank (''Bot:'' # applicable
       [seni_token nc ids, priority_token nc so, batch_token nc, shipping_token so,
        partnerkunde_token so, rest_token nc, size_token so sn, batched_token bq bp,
        shelf_token sh, count_token nc ids])
   \<and> startswith (create_note nc ids so sn bq bp sh) ''Bot:''"
proof -
  have eq: "create_note nc ids so sn bq bp sh =
     join_blank (''Bot:'' # applicable (note_tokens nc ids so sn bq bp sh))"
    using create_note_as_tokens [of nc ids so sn bq bp sh] by (simp add: BASE_NOTE_def)
  obtain rest where "create_note nc ids so sn bq bp sh = ''Bot:'' @ rest"
    using eq join_blank_Cons [of "''Bot:''" "applicable (note_tokens nc ids so sn bq bp sh)"]
    by auto
  then have "startswith (create_note nc ids so sn bq bp sh) ''Bot:''"
    by (simp add: startswith_def)
  with eq show ?thesis by (simp add: note_tokens_def)
qed

subsection \<open>The Separator\<close>

text \<open>
  C3. The admission check is not the check of all items. On the order 7 with the items
  (product 1, quantity 1) and (product 2, quantity 100) and the stock \<open>{1: 5, 2: 0}\<close>,
  \<open>check_availability_locally\<close> returns \<open>True\<close> at the first item although the second
  is not covered, and \<open>PulpoSeparator.main\<close> counts the order and routes it to the batch
  list. The stock dictionary is left as it was.
\<close>

theorem check_availability_locally_admits_on_first_item:
  "check_availability_locally [1 \<mapsto> 5, 2 \<mapsto> 0] [mk_item 1 1, mk_item 2 100] = True
   \<and> all_items_available [1 \<mapsto> 5, 2 \<mapsto> 0] [mk_item 1 1, mk_item 2 100] = False
   \<and> sep_orders_count (separator_main
         (init_separator clock0 False \<lparr>Partnerkunden = [], Palettenversand = []\<rparr>
            [1 \<mapsto> 5, 2 \<mapsto> 0] [] (\<lambda>u. 0) [])
         [mk_order 7 ''LA_0_5'' [mk_item 1 1, mk_item 2 100]]) = 1
   \<and> map sales_order_id (orders_for_batches (separator_main
         (init_separator clock0 False \<lparr>Partnerkunden = [], Palettenversand = []\<rparr>
            [1 \<mapsto> 5, 2 \<mapsto> 0] [] (\<lambda>u. 0) [])
         [mk_order 7 ''LA_0_5'' [mk_item 1 1, mk_item 2 100]])) = [7]"
  by code_simp

lemma create_assigned_picking_keeps_stock:
  "sep_product_stock (fst (create_assigned_picking sep order ps d sn pr)) = sep_product_stock sep"
  by (simp add: create_assigned_picking_def Let_def)

lemma single_picks_creation_keeps_stock:
  "sep_product_stock (fst (single_picks_creation sep order pr)) = sep_product_stock sep"
proof -
  have a: "\<And>ps d sn sep' r. create_assigned_picking sep order ps d sn pr = (sep', r)
      \<Longrightarrow> sep_product_stock sep' = sep_product_stock sep"
    using create_assigned_picking_keeps_stock by (metis fst_conv)
  show ?thesis
    unfolding single_picks_creation_def Let_def
    by (auto split: prod.splits sum.splits dest: a)
qed

lemma route_order_keeps_stock:
  "sep_product_stock (route_order sep order p s c) = sep_product_stock sep"
  by (simp add: route_order_def Let_def)

lemma separate_order_keeps_stock:
  "sep_product_stock (separate_order sep order) = sep_product_stock sep"
proof -
  have a: "\<And>sep1 pr sep' r. single_picks_creation sep1 order pr = (sep', r)
      \<Longrightarrow> sep_product_stock sep' = sep_product_stock sep1"
    using single_picks_creation_keeps_stock by (metis fst_conv)
  show ?thesis
    unfolding separate_order_def Let_def
    by (auto simp: route_order_keeps_stock split: prod.splits sum.splits dest!: a)
qed

lemma separator_main_keeps_stock:
  "sep_product_stock (separator_main sep queue_orders) = sep_product_stock sep"
  unfolding separator_main_def
  by (induction queue_orders arbitrary: sep) (simp_all add: separate_order_keeps_stock)

text \<open>
  C7. With the rosters Partnerkunden \<open>[7, 8]\<close> and Palettenversand \<open>[42]\<close>, the palette
  order 5 (shipping method 605) is posted with the Partnerkunden roster \<open>[7, 8]\<close>
  attached, not with the supplied roster \<open>[42]\<close>; the function returns 7, and the caller's
  increment of the palette counter of 7 raises \<open>KeyError\<close>. With both rosters empty the
  pick is posted unassigned and the function raises \<open>IndexError\<close> instead of returning
  no id.
\<close>

theorem create_assigned_picking_uses_partnerkunde_roster:
  "(case create_assigned_picking
           (init_separator clock0 False \<lparr>Partnerkunden = [7, 8], Palettenversand = [42]\<rparr>
              Map.empty [] (\<lambda>u. 0) [])
           (blank_order\<lparr>sales_order_id := 5, shipping_method_id := 605\<rparr>)
           [42] [(42, 0)] (Some NOTE_PALETTE) False of
      (sep', r) \<Rightarrow> map pickers (sep_wms sep') = [[7, 8]] \<and> r = Inr 7)
   \<and> snd (single_picks_creation
           (init_separator clock0 False \<lparr>Partnerkunden = [7, 8], Palettenversand = [42]\<rparr>
              Map.empty [] (\<lambda>u. 0) [])
           (blank_order\<lparr>sales_order_id := 5, shipping_method_id := 605\<rparr>) False) = Inl KeyError
   \<and> (case create_assigned_picking
           (init_separator clock0 False \<lparr>Partnerkunden = [], Palettenversand = []\<rparr>
              Map.empty [] (\<lambda>u. 0) [])
           (blank_order\<lparr>sales_order_id := 5, shipping_method_id := 605\<rparr>)
           [] [] (Some NOTE_PALETTE) False of
      (sep', r) \<Rightarrow> map pickers (sep_wms sep') = [[]] \<and> r = Inl IndexError)"
  by code_simp

subsection \<open>askPulpo\<close>

lemma askPulpo_loop_requests:
  "requests (snd (askPulpo_loop responses retries remaining delay tr)) \<le> requests tr + remaining"
proof (induction remaining arbitrary: delay tr)
  case 0
  then show ?case by simp
next
  case (Suc remaining)
  have step: "\<And>d sl. requests (snd (askPulpo_loop responses retries remaining d
        (tr\<lparr>requests := Suc (requests tr), slept := sl\<rparr>))) \<le> Suc (requests tr + remaining)"
  proof -
    fix d sl
    show "requests (snd (askPulpo_loop responses retries remaining d
        (tr\<lparr>requests := Suc (requests tr), slept := sl\<rparr>))) \<le> Suc (requests tr + remaining)"
      using Suc.IH [of d "tr\<lparr>requests := Suc (requests tr), slept := sl\<rparr>"] by simp
  qed
  show ?case
    by (auto simp: Let_def step split: attempt.splits option.splits)
qed

lemma askPulpo_at_most_retries:
  "requests (snd (askPulpo responses retries delay)) \<le> retries"
  using askPulpo_loop_requests [of responses retries retries "JNum delay" "\<lparr>slept = [], requests = 0\<rparr>"]
  by (simp add: askPulpo_def)

text \<open>
  C8. With the default \<open>retries = 3\<close> and \<open>delay = 30\<close> and a WMS that answers every attempt
  with HTTP 429, \<open>askPulpo\<close> sends three requests, sleeps three times and then returns
  \<open>None\<close>: no error reaches the caller. Where every attempt gets the rate-limit business
  error, the third attempt raises it, after two sleeps.
\<close>

theorem askPulpo_swallows_last_429:
  "askPulpo (\<lambda>i. Http 429 None) 3 30 =
     (Returned None, \<lparr>slept = [JNum 30, JNum 30, JNum 30], requests = 3\<rparr>)
   \<and> askPulpo (\<lambda>i. Http 200 (Some (JDict [(''message'', JStr ''api_rate_limit_reached'')]))) 3 30 =
     (Raised (PulpoError (JDict [(''message'', JStr ''api_rate_limit_reached'')])),
      \<lparr>slept = [JNum 30, JNum 30], requests = 3\<rparr>)"
  by code_simp

subsection \<open>The cart planners\<close>

lemma check_space_no_room:
  assumes "\<not> cm_is_prio cm" and "NON_PRIO_THRESHOLD \<le> cm_picking_counts cm (cm_checks cm)"
  shows "\<exists>n. snd (check_space cm) = Finite n \<and> n \<le> 0"
    and "cm_wms (fst (check_space cm)) = cm_wms cm"
    and "cm_picking_counts (fst (check_space cm)) = cm_picking_counts cm"
    and "cm_is_sweeping_time (fst (check_space cm)) = cm_is_sweeping_time cm"
  using assms by (auto simp: check_space_def Let_def)

lemma carts_main_no_room:
  assumes "\<forall>k. NON_PRIO_THRESHOLD \<le> cm_picking_counts cm k"
  shows "cm_wms (carts_main cm sz order_list False False stock) = cm_wms cm
       \<and> cm_picking_counts (carts_main cm sz order_list False False stock) = cm_picking_counts cm"
proof -
  let ?cm0 = "cm\<lparr>cm_is_prio := False, cm_is_sweeping_time := False,
                   cm_orders := order_list, cm_product_stock := stock\<rparr>"
  obtain cm1 sp where cs: "check_space ?cm0 = (cm1, sp)" by (cases "check_space ?cm0")
  have np: "\<not> cm_is_prio ?cm0" by simp
  have th: "NON_PRIO_THRESHOLD \<le> cm_picking_counts ?cm0 (cm_checks ?cm0)" using assms by simp
  from check_space_no_room [OF np th] cs
  obtain n where sp: "sp = Finite n" "n \<le> 0"
    and w: "cm_wms cm1 = cm_wms cm" and c: "cm_picking_counts cm1 = cm_picking_counts cm"
    and sw: "cm_is_sweeping_time cm1 = False"
    by auto
  show ?thesis
    unfolding carts_main_def Let_def cs
    using sp w c sw by simp
qed

lemma carts_for_sizes_no_room:
  assumes "\<forall>k. NON_PRIO_THRESHOLD \<le> cm_picking_counts cm k"
  shows "cm_wms (carts_for_sizes cm False order_list False sizes) = cm_wms cm"
  using assms
proof (induction sizes arbitrary: cm)
  case Nil
  then show ?case by simp
next
  case (Cons sz sizes)
  let ?cm' = "carts_main cm sz order_list False False (cm_product_stock cm)"
  have m: "cm_wms ?cm' = cm_wms cm" "cm_picking_counts ?cm' = cm_picking_counts cm"
    using carts_main_no_room [OF Cons.prems] by auto
  then have "\<forall>k. NON_PRIO_THRESHOLD \<le> cm_picking_counts ?cm' k" using Cons.prems by simp
  then have "cm_wms (carts_for_sizes ?cm' False order_list False sizes) = cm_wms cm"
    using Cons.IH [of ?cm'] m by simp
  then show ?case using Cons.IH [OF Cons.prems] by simp
qed

text \<open>
  C4. In a run for non-priority orders outside sweeping time, when every count of the
  picking orders in the states \<open>queue\<close> and \<open>taken\<close> that the WMS reports is at least
  \<open>NON_PRIO_THRESHOLD\<close>, \<open>picking_creation_carts\<close> posts nothing: the log of the WMS after
  the loop over all sizes is the log before it, whatever the orders, the stock and the
  shelves are.
\<close>

theorem capacity_gate_no_carts:
  assumes "\<forall>k. NON_PRIO_THRESHOLD \<le> cm_picking_counts cm k"
  shows "cm_wms (picking_creation_carts cm False order_list False stock) = cm_wms cm"
proof -
  let ?cm = "cm\<lparr>cm_product_stock := stock\<rparr>"
  have "\<forall>k. NON_PRIO_THRESHOLD \<le> cm_picking_counts ?cm k" using assms by simp
  then have "cm_wms (carts_for_sizes ?cm False order_list False
      [SIZE_S, SIZE_M1, SIZE_M2, SIZE_L, SIZE_XL, SIZE_XXL]) = cm_wms ?cm"
    by (rule carts_for_sizes_no_room)
  then show ?thesis
    unfolding picking_creation_carts_def by (simp del: carts_for_sizes.simps)
qed

theorem capacity_gate_no_carts_witness:
  "(\<forall>k. NON_PRIO_THRESHOLD \<le> (\<lambda>k. 10 + int k) k)
   \<and> cm_wms (picking_creation_carts
        (init_carts_manager [] clock0 False [1 \<mapsto> 100] (\<lambda>p. 0) (\<lambda>k. 10 + int k) [])
        False twelve_orders False [1 \<mapsto> 100]) = []"
proof -
  have h: "\<forall>k. NON_PRIO_THRESHOLD \<le>
      cm_picking_counts (init_carts_manager [] clock0 False [1 \<mapsto> 100] (\<lambda>p. 0) (\<lambda>k. 10 + int k) []) k"
    by (simp add: init_carts_manager_def NON_PRIO_THRESHOLD_def)
  show ?thesis
    using capacity_gate_no_carts [OF h, of twelve_orders "[1 \<mapsto> 100]"]
    by (simp add: init_carts_manager_def NON_PRIO_THRESHOLD_def)
qed

text \<open>
  C5. On twelve unprocessed orders of size S (at most ten per cart), all available, with
  five spaces left, \<open>number_of_carts\<close> is 2 but \<open>fill_cart_randomly\<close> posts one cart (the
  orders 1 to 10) and returns with four spaces left, while the orders 11 and 12 remain:
  a second call on the state it left posts them.
\<close>

theorem fill_cart_randomly_returns_after_first_cart:
  "number_of_carts (creator0 twelve_orders [1 \<mapsto> 100]) SIZE_S = 2
   \<and> (case fill_cart_randomly (creator0 twelve_orders [1 \<mapsto> 100]) (Finite 5) SIZE_S of
        (cc', r) \<Rightarrow>
          map sales_orders (cc_wms cc') = [[1, 2, 3, 4, 5, 6, 7, 8, 9, 10]]
          \<and> r = Some (Finite 4)
          \<and> cc_processed_orders cc' = [1, 2, 3, 4, 5, 6, 7, 8, 9, 10]
          \<and> cc_product_stock cc' 1 = Some 90
          \<and> (case fill_cart_randomly cc' (Finite 4) SIZE_S of
               (cc'', r') \<Rightarrow>
                 map sales_orders (cc_wms cc'') = [[1, 2, 3, 4, 5, 6, 7, 8, 9, 10], [11, 12]]
                 \<and> r' = Some (Finite 3)))"
  by code_simp

subsection \<open>Stock safety\<close>

lemma post_batch_keeps_stock: "bm_product_stock (post_batch bm ids q) = bm_product_stock bm"
  by (simp add: post_batch_def Let_def)

lemma split_batches_loop_keeps_stock:
  "bm_product_stock (split_batches_loop n bm orders pallet_cap) = bm_product_stock bm"
  by (induction n arbitrary: bm) (auto simp: post_batch_keeps_stock split: prod.splits)

text \<open>The split path never changes the stock dictionary, whatever it posts.\<close>

lemma split_batches_keeps_stock:
  "bm_product_stock (split_batches bm orders total_quantity pallet_cap) = bm_product_stock bm"
  by (simp add: split_batches_def Let_def split_batches_loop_keeps_stock)

text \<open>
  C1. A run in which the picks posted ask for more of product 1 than the Shelves Indexer
  found: with twelve units in stock and ten orders of product 1 for fourteen units, the
  stock-truncated single batch holds all ten orders, so fourteen units are posted while
  the stock is reduced by twelve. And the split path does not decrement the stock at
  all: \<open>split_batches\<close> leaves the stock dictionary as it is for every input, also
  where it posts a batch, as for a hundred orders of one unit with fifty units per pallet.
\<close>

theorem batch_picks_exceed_stock:
  "map sales_orders (pm_wms (pulpo_main (env0 [1 \<mapsto> 12]) ten_orders))
     = [[1, 2, 3, 4, 5, 6, 7, 8, 9, 10]]
   \<and> emitted_quantity ten_orders (pm_wms (pulpo_main (env0 [1 \<mapsto> 12]) ten_orders)) 1 = 14
   \<and> pm_product_availability (pulpo_main (env0 [1 \<mapsto> 12]) ten_orders) 1 = Some 0
   \<and> bm_product_stock (split_batches bm orders total_quantity pallet_cap) = bm_product_stock bm
   \<and> map sales_orders (bm_wms (split_batches
         ((init_batching_manager clock0 False [] (\<lambda>p. Some (''Handschuhe'', Units 50)) [])
            \<lparr>bm_product_stock := [1 \<mapsto> 100]\<rparr>)
         (map (\<lambda>i. (i, 1)) [1..100]) (PyInt 100) (Units 50))) = [[1..50]]"
proof -
  have a: "map sales_orders (pm_wms (pulpo_main (env0 [1 \<mapsto> 12]) ten_orders))
     = [[1, 2, 3, 4, 5, 6, 7, 8, 9, 10]]"
    by code_simp
  have b: "emitted_quantity ten_orders (pm_wms (pulpo_main (env0 [1 \<mapsto> 12]) ten_orders)) 1 = 14"
    by code_simp
  have c: "pm_product_availability (pulpo_main (env0 [1 \<mapsto> 12]) ten_orders) 1 = Some 0"
    by code_simp
  have d: "map sales_orders (bm_wms (split_batches
         ((init_batching_manager clock0 False [] (\<lambda>p. Some (''Handschuhe'', Units 50)) [])
            \<lparr>bm_product_stock := [1 \<mapsto> 100]\<rparr>)
         (map (\<lambda>i. (i, 1)) [1..100]) (PyInt 100) (Units 50))) = [[1..50]]"
    by code_simp
  show ?thesis
    using a b c d split_batches_keeps_stock [of bm orders total_quantity pallet_cap] by simp
qed

end
